theory Spec2Isabelle
  imports Main "HOL-Library.Word"
begin

section \<open>PassGen: a shallow embedding of src/passgen.ts\<close>

text \<open>
  The program is the TypeScript command-line tool \<^verbatim>\<open>src/passgen.ts\<close> (compiled to
  \<^verbatim>\<open>dist/passgen.js\<close>). Strings are lists of characters, one \<^typ>\<open>char\<close> per code
  unit, which covers the texts whose code units are below 256; every character the program
  itself puts into a password is ASCII. A JavaScript
  value that may be \<^verbatim>\<open>undefined\<close> is an \<^typ>\<open>'a option\<close>, with \<^term>\<open>None\<close> for
  \<^verbatim>\<open>undefined\<close>. Numbers that hold lengths are \<^typ>\<open>int\<close>.
\<close>

subsection \<open>Character sets (CHAR_SETS)\<close>

definition CHAR_SETS_lowercase :: string where
  "CHAR_SETS_lowercase = ''abcdefghijklmnopqrstuvwxyz''"

definition CHAR_SETS_uppercase :: string where
  "CHAR_SETS_uppercase = ''ABCDEFGHIJKLMNOPQRSTUVWXYZ''"

definition CHAR_SETS_numbers :: string where
  "CHAR_SETS_numbers = ''0123456789''"

definition CHAR_SETS_symbols :: string where
  "CHAR_SETS_symbols = ''!@#$%^&*()_+-=[]{}|;:,.<>?''"

definition CHAR_SETS_ambiguous :: string where
  "CHAR_SETS_ambiguous = ''il1Lo0O''"

subsection \<open>Option objects\<close>

text \<open>
  \<^verbatim>\<open>PasswordOptions\<close>: the object handed to \<^verbatim>\<open>generatePassword\<close>. The interface
  declares the five flags as booleans, but the default command passes
  \<^verbatim>\<open>options.excludeAmbiguous\<close> through as it got it from the option parser, where it is
  \<^verbatim>\<open>undefined\<close> unless \<^verbatim>\<open>-x\<close> was given; the destructuring defaults of
  \<^verbatim>\<open>generatePassword\<close> exist for that case.
\<close>

record PasswordOptions =
  po_length :: int
  includeLowercase :: "bool option"
  includeUppercase :: "bool option"
  includeNumbers :: "bool option"
  includeSymbols :: "bool option"
  excludeAmbiguous :: "bool option"

text \<open>The constants bound by the destructuring pattern at the head of \<^verbatim>\<open>generatePassword\<close>.\<close>

record Bindings =
  b_length :: int
  b_includeLowercase :: bool
  b_includeUppercase :: bool
  b_includeNumbers :: bool
  b_includeSymbols :: bool
  b_excludeAmbiguous :: bool

text \<open>A destructuring default \<^verbatim>\<open>x = d\<close> applies exactly when the property is undefined.\<close>

definition orDefault :: "'a \<Rightarrow> 'a option \<Rightarrow> 'a" where
  "orDefault d v = (case v of None \<Rightarrow> d | Some x \<Rightarrow> x)"

definition destructure :: "PasswordOptions \<Rightarrow> Bindings" where
  "destructure options =
     \<lparr> b_length = po_length options,
       b_includeLowercase = orDefault True (includeLowercase options),
       b_includeUppercase = orDefault True (includeUppercase options),
       b_includeNumbers = orDefault True (includeNumbers options),
       b_includeSymbols = orDefault False (includeSymbols options),
       b_excludeAmbiguous = orDefault False (excludeAmbiguous options) \<rparr>"

subsection \<open>The character set of a call\<close>

text \<open>
  \<^verbatim>\<open>charset.replace(new RegExp(char, 'g'), '')\<close>: every character of the ambiguous set is
  a letter or a digit, so the pattern matches that one character literally, and the global
  flag deletes each of its occurrences. That is \<^const>\<open>removeAll\<close> on the list of
  characters.
\<close>

definition stripAmbiguous :: "string \<Rightarrow> string" where
  "stripAmbiguous charset = fold removeAll CHAR_SETS_ambiguous charset"

definition composeCharset :: "Bindings \<Rightarrow> string" where
  "composeCharset b =
     (let charset = [];
          charset = (if b_includeLowercase b then charset @ CHAR_SETS_lowercase else charset);
          charset = (if b_includeUppercase b then charset @ CHAR_SETS_uppercase else charset);
          charset = (if b_includeNumbers b then charset @ CHAR_SETS_numbers else charset);
          charset = (if b_includeSymbols b then charset @ CHAR_SETS_symbols else charset);
          charset = (if b_excludeAmbiguous b then stripAmbiguous charset else charset)
      in charset)"

subsection \<open>The secure random source\<close>

type_synonym byte = "8 word"

text \<open>
  \<^verbatim>\<open>crypto.randomBytes\<close> is the only source of randomness. The source is the sequence of
  bytes it will deliver, together with the number of bytes delivered so far; a call for
  \<open>n\<close> bytes returns the next \<open>n\<close> and advances the count. Node rejects a size that is
  negative or above \<open>2^31 - 1\<close> with a \<^verbatim>\<open>RangeError\<close>, before any byte is produced.
\<close>

record RandomSource =
  stream :: "nat \<Rightarrow> byte"
  drawn :: nat

datatype error =
    InvalidLengthError    \<comment> \<open>\<^verbatim>\<open>Length must be a positive number\<close>, exit status 1\<close>
  | LengthTooLargeError   \<comment> \<open>\<^verbatim>\<open>Length cannot exceed 256 characters\<close>, exit status 1\<close>
  | EmptyAlphabetError    \<comment> \<open>\<^verbatim>\<open>Error('No character sets selected for password generation')\<close>\<close>
  | RangeError            \<comment> \<open>thrown by \<^verbatim>\<open>randomBytes\<close> for a size out of range\<close>

definition nextBytes :: "nat \<Rightarrow> RandomSource \<Rightarrow> byte list" where
  "nextBytes n src = map (stream src) [drawn src ..< drawn src + n]"

definition randomBytes :: "int \<Rightarrow> RandomSource \<Rightarrow> (error + byte list) \<times> RandomSource" where
  "randomBytes n src =
     (if n < 0 \<or> n > 2147483647 then (Inl RangeError, src)
      else (Inr (nextBytes (nat n) src), src\<lparr>drawn := drawn src + nat n\<rparr>))"

subsection \<open>generatePassword\<close>

text \<open>
  \<^verbatim>\<open>array[i]\<close> is undefined outside the buffer; \<^verbatim>\<open>charset[k]\<close> is undefined outside the
  string and for \<^verbatim>\<open>k = NaN\<close> (which is what \<^verbatim>\<open>undefined % n\<close> and \<^verbatim>\<open>b % 0\<close> give);
  \<^verbatim>\<open>password += undefined\<close> appends the nine characters \<^verbatim>\<open>undefined\<close>.
\<close>

definition byteAt :: "byte list \<Rightarrow> int \<Rightarrow> byte option" where
  "byteAt array i = (if 0 \<le> i \<and> i < int (length array) then Some (array ! nat i) else None)"

definition pick :: "string \<Rightarrow> byte option \<Rightarrow> string" where
  "pick charset b =
     (case b of
        None \<Rightarrow> ''undefined''
      | Some v \<Rightarrow>
          if charset = [] then ''undefined''
          else [charset ! (unat v mod length charset)])"

function fillPassword :: "string \<Rightarrow> byte list \<Rightarrow> int \<Rightarrow> int \<Rightarrow> string \<Rightarrow> string" where
  "fillPassword charset array len i password =
     (if i < len
      then fillPassword charset array len (i + 1) (password @ pick charset (byteAt array i))
      else password)"
  by pat_completeness auto
termination
  by (relation "measure (\<lambda>(charset, array, len, i, password). nat (len - i))") auto

declare fillPassword.simps [simp del]

definition generatePassword ::
  "PasswordOptions \<Rightarrow> RandomSource \<Rightarrow> (error + string) \<times> RandomSource" where
  "generatePassword options src =
     (let b = destructure options;
          charset = composeCharset b
      in if length charset = 0 then (Inl EmptyAlphabetError, src)
         else
           (case randomBytes (b_length b) src of
              (Inl e, src') \<Rightarrow> (Inl e, src')
            | (Inr array, src') \<Rightarrow> (Inr (fillPassword charset array (b_length b) 0 []), src')))"

subsection \<open>parseLength\<close>

text \<open>
  \<^verbatim>\<open>parseInt(lengthStr)\<close> with no radix, as ECMAScript defines it: leading white space is
  dropped, one sign is read, a \<^verbatim>\<open>0x\<close> or \<^verbatim>\<open>0X\<close> prefix selects radix 16 (radix 10
  otherwise), and the longest run of digits of that radix is the numeral; whatever follows
  is ignored, and no digit at all gives \<^verbatim>\<open>NaN\<close>, here \<^term>\<open>None\<close>. Of the white
  space of ECMAScript, the code units below 256 are tab, line feed, vertical tab, form feed,
  carriage return, space and no-break space. The result is the exact integer: the rounding
  of a \<^verbatim>\<open>Number\<close> starts far above the 256 that \<^verbatim>\<open>parseLength\<close> accepts and keeps the
  order of values.
\<close>

definition isWhiteSpace :: "char \<Rightarrow> bool" where
  "isWhiteSpace c = ((of_char c :: nat) \<in> set [9, 10, 11, 12, 13, 32, 160])"

definition digitValue :: "char \<Rightarrow> nat option" where
  "digitValue c =
     (let k = (of_char c :: nat)
      in if 48 \<le> k \<and> k \<le> 57 then Some (k - 48)
         else if 97 \<le> k \<and> k \<le> 122 then Some (k - 87)
         else if 65 \<le> k \<and> k \<le> 90 then Some (k - 55)
         else None)"

definition isRadixDigit :: "nat \<Rightarrow> char \<Rightarrow> bool" where
  "isRadixDigit R c = (case digitValue c of None \<Rightarrow> False | Some v \<Rightarrow> v < R)"

definition mathInt :: "nat \<Rightarrow> string \<Rightarrow> nat" where
  "mathInt R Z = foldl (\<lambda>acc c. acc * R + orDefault 0 (digitValue c)) 0 Z"

definition parseInt :: "string \<Rightarrow> int option" where
  "parseInt inputString =
     (let S = dropWhile isWhiteSpace inputString;
          sign = (if S \<noteq> [] \<and> hd S = CHR ''-'' then - 1 else (1 :: int));
          S = (if S \<noteq> [] \<and> (hd S = CHR ''+'' \<or> hd S = CHR ''-'') then tl S else S);
          hex = (take 2 S = ''0x'' \<or> take 2 S = ''0X'');
          R = (if hex then 16 else 10);
          S = (if hex then drop 2 S else S);
          Z = takeWhile (isRadixDigit R) S
      in if Z = [] then None else Some (sign * int (mathInt R Z)))"

text \<open>
  \<^verbatim>\<open>parseLength\<close> prints a message to the error stream and ends the process with status 1
  on a bad length. The two ways out are the two errors; what is printed and the exit are
  carried out where the error reaches \<^verbatim>\<open>handlePasswordGeneration\<close> below.
\<close>

definition parseLength :: "string \<Rightarrow> error + int" where
  "parseLength lengthStr =
     (case parseInt lengthStr of
        None \<Rightarrow> Inl InvalidLengthError
      | Some len \<Rightarrow>
          if len < 1 then Inl InvalidLengthError
          else if len > 256 then Inl LengthTooLargeError
          else Inr len)"

subsection \<open>The process and its surroundings\<close>

text \<open>
  What the program prints, line by line. The fixed text of each line is in the source;
  only the part that varies is kept.
\<close>

datatype console_line =
    GeneratedPassword string          \<comment> \<open>\<^verbatim>\<open>Generated password: <text>\<close>\<close>
  | PasswordCopied                    \<comment> \<open>\<^verbatim>\<open>Password copied to clipboard!\<close>\<close>
  | FailedToCopy string               \<comment> \<open>\<^verbatim>\<open>Failed to copy to clipboard: <message>\<close>\<close>
  | LengthMustBePositive              \<comment> \<open>\<^verbatim>\<open>Length must be a positive number\<close>\<close>
  | LengthCannotExceed                \<comment> \<open>\<^verbatim>\<open>Length cannot exceed 256 characters\<close>\<close>
  | ErrorGeneratingPassword error     \<comment> \<open>\<^verbatim>\<open>Error generating password: <message>\<close>\<close>

text \<open>
  The state around a run: the random source, the clipboard (\<open>clipboardFailure\<close> is the
  message with which \<^verbatim>\<open>clipboardy.write\<close> will reject, if it will), the two console
  streams and the exit status once \<^verbatim>\<open>process.exit\<close> has been called.
\<close>

record World =
  rng :: RandomSource
  clipboardFailure :: "string option"
  clipboard :: "string option"
  stdout :: "console_line list"
  stderr :: "console_line list"
  exitCode :: "nat option"

definition console_log :: "console_line \<Rightarrow> World \<Rightarrow> World" where
  "console_log l w = w\<lparr>stdout := stdout w @ [l]\<rparr>"

definition console_error :: "console_line \<Rightarrow> World \<Rightarrow> World" where
  "console_error l w = w\<lparr>stderr := stderr w @ [l]\<rparr>"

definition process_exit :: "nat \<Rightarrow> World \<Rightarrow> World" where
  "process_exit code w = w\<lparr>exitCode := Some code\<rparr>"

subsection \<open>copyToClipboard\<close>

definition copyToClipboard :: "string \<Rightarrow> World \<Rightarrow> World" where
  "copyToClipboard text w =
     (case clipboardFailure w of
        None \<Rightarrow>
          console_log PasswordCopied
            (console_log (GeneratedPassword text) (w\<lparr>clipboard := Some text\<rparr>))
      | Some message \<Rightarrow>
          console_log (GeneratedPassword text) (console_error (FailedToCopy message) w))"

subsection \<open>handlePasswordGeneration\<close>

text \<open>
  \<^verbatim>\<open>CommandOptions\<close> is the object the option parser hands to an action. A flag nobody
  set and that has no default is \<^verbatim>\<open>undefined\<close>.
\<close>

record CommandOptions =
  co_length :: string
  co_lowercase :: "bool option"
  co_uppercase :: "bool option"
  co_numbers :: "bool option"
  co_symbols :: "bool option"
  co_excludeAmbiguous :: "bool option"
  co_copy :: "bool option"

text \<open>\<^verbatim>\<open>Partial<PasswordOptions>\<close>: \<^term>\<open>None\<close> is a property that is absent.\<close>

record PartialPasswordOptions =
  pp_length :: "int option"
  pp_includeLowercase :: "bool option"
  pp_includeUppercase :: "bool option"
  pp_includeNumbers :: "bool option"
  pp_includeSymbols :: "bool option"
  pp_excludeAmbiguous :: "bool option"

text \<open>A property of the spread object, when present, replaces the one written before it.\<close>

definition spread :: "'a option \<Rightarrow> 'a option \<Rightarrow> 'a option" where
  "spread earlier p = (case p of None \<Rightarrow> earlier | Some v \<Rightarrow> Some v)"

definition passwordOptionsObject ::
  "int \<Rightarrow> CommandOptions \<Rightarrow> PartialPasswordOptions \<Rightarrow> PasswordOptions" where
  "passwordOptionsObject len options passwordOptions =
     \<lparr> po_length = orDefault len (pp_length passwordOptions),
       includeLowercase = spread (co_lowercase options) (pp_includeLowercase passwordOptions),
       includeUppercase = spread (co_uppercase options) (pp_includeUppercase passwordOptions),
       includeNumbers = spread (co_numbers options) (pp_includeNumbers passwordOptions),
       includeSymbols = spread (co_symbols options) (pp_includeSymbols passwordOptions),
       excludeAmbiguous =
         spread (co_excludeAmbiguous options) (pp_excludeAmbiguous passwordOptions) \<rparr>"

definition truthy :: "bool option \<Rightarrow> bool" where
  "truthy v = (v = Some True)"

definition lengthMessage :: "error \<Rightarrow> console_line" where
  "lengthMessage e = (if e = LengthTooLargeError then LengthCannotExceed else LengthMustBePositive)"

definition handlePasswordGeneration ::
  "CommandOptions \<Rightarrow> PartialPasswordOptions \<Rightarrow> World \<Rightarrow> World" where
  "handlePasswordGeneration options passwordOptions w =
     (case parseLength (co_length options) of
        Inl e \<Rightarrow> process_exit 1 (console_error (lengthMessage e) w)
      | Inr len \<Rightarrow>
          (case generatePassword (passwordOptionsObject len options passwordOptions) (rng w) of
             (Inl e, src) \<Rightarrow>
               process_exit 1 (console_error (ErrorGeneratingPassword e) (w\<lparr>rng := src\<rparr>))
           | (Inr password, src) \<Rightarrow>
               if truthy (co_copy options) then copyToClipboard password (w\<lparr>rng := src\<rparr>)
               else console_log (GeneratedPassword password) (w\<lparr>rng := src\<rparr>)))"

subsection \<open>The commands\<close>

text \<open>
  The option parser is the \<^verbatim>\<open>commander\<close> package. An option declared with a value and a
  default starts at that default; an option declared as \<^verbatim>\<open>--no-foo\<close> makes \<^verbatim>\<open>foo\<close>
  start at \<^verbatim>\<open>true\<close>; a plain flag such as \<^verbatim>\<open>-x, --exclude-ambiguous\<close> is
  \<^verbatim>\<open>undefined\<close> until given. \<open>defaultCommandOptions\<close> is therefore the object the
  default command's action receives when the command line has no option at all, from the
  seven \<^verbatim>\<open>.option\<close> declarations of the program.
\<close>

definition defaultCommandOptions :: CommandOptions where
  "defaultCommandOptions =
     \<lparr> co_length = ''16'',
       co_lowercase = Some True,
       co_uppercase = Some True,
       co_numbers = Some True,
       co_symbols = Some True,
       co_excludeAmbiguous = None,
       co_copy = Some True \<rparr>"

definition noPasswordOptions :: PartialPasswordOptions where
  "noPasswordOptions =
     \<lparr> pp_length = None, pp_includeLowercase = None, pp_includeUppercase = None,
       pp_includeNumbers = None, pp_includeSymbols = None, pp_excludeAmbiguous = None \<rparr>"

definition defaultAction :: "CommandOptions \<Rightarrow> World \<Rightarrow> World" where
  "defaultAction options w = handlePasswordGeneration options noPasswordOptions w"

text \<open>
  The three preset commands declare \<^verbatim>\<open>-l, --length\<close> with their own default and
  \<^verbatim>\<open>--no-clipboard\<close>; their actions receive \<open>length\<close> and \<open>clipboard\<close>.
\<close>

record PresetOptions =
  ps_length :: string
  ps_clipboard :: "bool option"

definition simpleDefaults :: PresetOptions where
  "simpleDefaults = \<lparr> ps_length = ''12'', ps_clipboard = Some True \<rparr>"

definition strongDefaults :: PresetOptions where
  "strongDefaults = \<lparr> ps_length = ''20'', ps_clipboard = Some True \<rparr>"

definition pinDefaults :: PresetOptions where
  "pinDefaults = \<lparr> ps_length = ''6'', ps_clipboard = Some True \<rparr>"

definition simpleCommandOptions :: "PresetOptions \<Rightarrow> CommandOptions" where
  "simpleCommandOptions options =
     \<lparr> co_length = ps_length options,
       co_lowercase = Some True,
       co_uppercase = Some True,
       co_numbers = Some True,
       co_symbols = Some True,
       co_excludeAmbiguous = Some True,
       co_copy = ps_clipboard options \<rparr>"

definition simplePasswordOptions :: PartialPasswordOptions where
  "simplePasswordOptions =
     \<lparr> pp_length = None, pp_includeLowercase = Some True, pp_includeUppercase = Some True,
       pp_includeNumbers = Some True, pp_includeSymbols = Some True,
       pp_excludeAmbiguous = Some True \<rparr>"

definition simpleAction :: "PresetOptions \<Rightarrow> World \<Rightarrow> World" where
  "simpleAction options w =
     handlePasswordGeneration (simpleCommandOptions options) simplePasswordOptions w"

definition strongCommandOptions :: "PresetOptions \<Rightarrow> CommandOptions" where
  "strongCommandOptions options =
     \<lparr> co_length = ps_length options,
       co_lowercase = Some True,
       co_uppercase = Some True,
       co_numbers = Some True,
       co_symbols = Some True,
       co_excludeAmbiguous = Some False,
       co_copy = ps_clipboard options \<rparr>"

definition strongPasswordOptions :: PartialPasswordOptions where
  "strongPasswordOptions =
     \<lparr> pp_length = None, pp_includeLowercase = Some True, pp_includeUppercase = Some True,
       pp_includeNumbers = Some True, pp_includeSymbols = Some True,
       pp_excludeAmbiguous = Some False \<rparr>"

definition strongAction :: "PresetOptions \<Rightarrow> World \<Rightarrow> World" where
  "strongAction options w =
     handlePasswordGeneration (strongCommandOptions options) strongPasswordOptions w"

definition pinCommandOptions :: "PresetOptions \<Rightarrow> CommandOptions" where
  "pinCommandOptions options =
     \<lparr> co_length = ps_length options,
       co_lowercase = Some False,
       co_uppercase = Some False,
       co_numbers = Some True,
       co_symbols = Some False,
       co_excludeAmbiguous = Some False,
       co_copy = ps_clipboard options \<rparr>"

definition pinPasswordOptions :: PartialPasswordOptions where
  "pinPasswordOptions =
     \<lparr> pp_length = None, pp_includeLowercase = Some False, pp_includeUppercase = Some False,
       pp_includeNumbers = Some True, pp_includeSymbols = Some False,
       pp_excludeAmbiguous = Some False \<rparr>"

definition pinAction :: "PresetOptions \<Rightarrow> World \<Rightarrow> World" where
  "pinAction options w =
     handlePasswordGeneration (pinCommandOptions options) pinPasswordOptions w"

subsection \<open>The earlier JavaScript program (bin/passgen.js)\<close>

text \<open>
  \<^verbatim>\<open>bin/passgen.js\<close> is an earlier version of the same tool, with the same character sets
  and the same \<^verbatim>\<open>generatePassword\<close> (its buffer is a \<^verbatim>\<open>Uint8Array\<close> filled by
  \<^verbatim>\<open>crypto.getRandomValues\<close>). Its commands build the object for \<^verbatim>\<open>generatePassword\<close>
  themselves. Two of these objects differ from the TypeScript program: the default command
  declares \<^verbatim>\<open>-s, --symbols\<close>, a plain flag, so \<^verbatim>\<open>options.symbols\<close> is undefined
  when no option is given; and the \<^verbatim>\<open>simple\<close> command passes
  \<^verbatim>\<open>includeSymbols: false\<close>.
\<close>

definition binDefaultPasswordOptions :: "int \<Rightarrow> PasswordOptions" where
  "binDefaultPasswordOptions len =
     \<lparr> po_length = len,
       includeLowercase = Some True,
       includeUppercase = Some True,
       includeNumbers = Some True,
       includeSymbols = None,
       excludeAmbiguous = None \<rparr>"

definition binSimplePasswordOptions :: "int \<Rightarrow> PasswordOptions" where
  "binSimplePasswordOptions len =
     \<lparr> po_length = len,
       includeLowercase = Some True,
       includeUppercase = Some True,
       includeNumbers = Some True,
       includeSymbols = Some False,
       excludeAmbiguous = Some True \<rparr>"

subsection \<open>Decimal numerals\<close>

text \<open>
  The decimal numeral of a natural number, most significant digit first and with no leading
  zero, as \<^verbatim>\<open>String(n)\<close> writes it. It is used to state what \<^verbatim>\<open>parseLength\<close> does
  on the texts that begin with a numeral.
\<close>

definition digitChar :: "nat \<Rightarrow> char" where
  "digitChar d = char_of (d + of_char (CHR ''0'') :: nat)"

fun decimal :: "nat \<Rightarrow> string" where
  "decimal n =
     (if 10 \<le> n then decimal (n div 10) @ [digitChar (n mod 10)] else [digitChar n])"

declare decimal.simps [simp del]

subsection \<open>The parts of a text that is read as a number\<close>

text \<open>
  To say what \<^verbatim>\<open>parseLength\<close> does on every text, a text is cut into five parts: white
  space \<open>ws\<close>, a sign \<open>sg\<close> (empty, \<^verbatim>\<open>+\<close> or \<^verbatim>\<open>-\<close>), a marker \<open>mk\<close> (empty,
  \<^verbatim>\<open>0x\<close> or \<^verbatim>\<open>0X\<close>), digits \<open>ds\<close> of the radix the marker selects, and the
  remainder \<open>rest\<close>. The cut is the longest one: the remainder does not continue the
  digits, a text without a sign does not go on with white space or a sign, and a text
  without a marker does not go on with one. The digits denote their positional value.
\<close>

definition isSign :: "char \<Rightarrow> bool" where
  "isSign c = (c = CHR ''+'' \<or> c = CHR ''-'')"

definition startsWith :: "(char \<Rightarrow> bool) \<Rightarrow> string \<Rightarrow> bool" where
  "startsWith P s = (case s of [] \<Rightarrow> False | c # _ \<Rightarrow> P c)"

definition radixOf :: "string \<Rightarrow> nat" where
  "radixOf mk = (if mk = [] then 10 else 16)"

fun numeralValue :: "nat \<Rightarrow> string \<Rightarrow> nat" where
  "numeralValue R [] = 0"
| "numeralValue R (c # cs) = orDefault 0 (digitValue c) * R ^ length cs + numeralValue R cs"

definition numeralParts :: "string \<Rightarrow> string \<Rightarrow> string \<Rightarrow> string \<Rightarrow> string \<Rightarrow> bool" where
  "numeralParts ws sg mk ds rest =
     (list_all isWhiteSpace ws \<and>
      (sg = [] \<or> sg = ''+'' \<or> sg = ''-'') \<and>
      (mk = [] \<or> mk = ''0x'' \<or> mk = ''0X'') \<and>
      list_all (isRadixDigit (radixOf mk)) ds \<and>
      \<not> startsWith (isRadixDigit (radixOf mk)) rest \<and>
      (if sg = []
       then \<not> startsWith isWhiteSpace (mk @ ds @ rest) \<and> \<not> startsWith isSign (mk @ ds @ rest)
       else True) \<and>
      (if mk = []
       then take 2 (ds @ rest) \<noteq> ''0x'' \<and> take 2 (ds @ rest) \<noteq> ''0X''
       else True))"

subsection \<open>Example runs\<close>

text \<open>
  Concrete surroundings for the examples below: a random source whose bytes are
  250, 1, 8, 15, 22, 29 and so on, a working clipboard or one whose write is rejected, and
  the options of a command line that switches every character set off.
\<close>

definition exampleWorld :: World where
  "exampleWorld =
     \<lparr> rng = \<lparr>stream = (\<lambda>i. 7 * of_nat i + 250), drawn = 0\<rparr>,
       clipboardFailure = None,
       clipboard = None,
       stdout = [],
       stderr = [],
       exitCode = None \<rparr>"

definition brokenClipboardWorld :: World where
  "brokenClipboardWorld = exampleWorld\<lparr>clipboardFailure := Some ''clipboard unavailable''\<rparr>"

definition noSetsCommandOptions :: CommandOptions where
  "noSetsCommandOptions =
     \<lparr> co_length = ''8'',
       co_lowercase = Some False,
       co_uppercase = Some False,
       co_numbers = Some False,
       co_symbols = Some False,
       co_excludeAmbiguous = None,
       co_copy = Some True \<rparr>"

section \<open>Properties\<close>

subsection \<open>The character set\<close>

lemma fold_removeAll: "fold removeAll xs ys = filter (\<lambda>c. c \<notin> set xs) ys"
  by (induction xs arbitrary: ys) (auto simp: removeAll_filter_not_eq intro: filter_cong)

lemma stripAmbiguous_filter:
  "stripAmbiguous charset = filter (\<lambda>c. c \<notin> set CHAR_SETS_ambiguous) charset"
  by (simp add: stripAmbiguous_def fold_removeAll)

lemma composeCharset_concat:
  "composeCharset b =
     (if b_excludeAmbiguous b then filter (\<lambda>c. c \<notin> set CHAR_SETS_ambiguous) else id)
       ((if b_includeLowercase b then CHAR_SETS_lowercase else []) @
        (if b_includeUppercase b then CHAR_SETS_uppercase else []) @
        (if b_includeNumbers b then CHAR_SETS_numbers else []) @
        (if b_includeSymbols b then CHAR_SETS_symbols else []))"
  by (simp add: composeCharset_def stripAmbiguous_filter)

lemma strip_lowercase: "stripAmbiguous CHAR_SETS_lowercase = ''abcdefghjkmnpqrstuvwxyz''"
  by (simp add: stripAmbiguous_def CHAR_SETS_lowercase_def CHAR_SETS_ambiguous_def)
lemma strip_uppercase: "stripAmbiguous CHAR_SETS_uppercase = ''ABCDEFGHIJKMNPQRSTUVWXYZ''"
  by (simp add: stripAmbiguous_def CHAR_SETS_uppercase_def CHAR_SETS_ambiguous_def)
lemma strip_numbers: "stripAmbiguous CHAR_SETS_numbers = ''23456789''"
  by (simp add: stripAmbiguous_def CHAR_SETS_numbers_def CHAR_SETS_ambiguous_def)
lemma strip_symbols: "stripAmbiguous CHAR_SETS_symbols = CHAR_SETS_symbols"
  by (simp add: stripAmbiguous_def CHAR_SETS_symbols_def CHAR_SETS_ambiguous_def)

lemma stripAmbiguous_append: "stripAmbiguous (xs @ ys) = stripAmbiguous xs @ stripAmbiguous ys"
  by (simp add: stripAmbiguous_filter)

lemma composeCharset_empty_iff:
  "composeCharset b = [] \<longleftrightarrow>
     \<not> b_includeLowercase b \<and> \<not> b_includeUppercase b \<and> \<not> b_includeNumbers b \<and> \<not> b_includeSymbols b"
  by (simp add: composeCharset_def stripAmbiguous_append strip_lowercase strip_uppercase strip_numbers strip_symbols)
     (simp add: CHAR_SETS_lowercase_def CHAR_SETS_uppercase_def CHAR_SETS_numbers_def CHAR_SETS_symbols_def stripAmbiguous_filter)

lemma fillPassword_eq:
  "0 \<le> i \<Longrightarrow> charset \<noteq> [] \<Longrightarrow> len = int (length array) \<Longrightarrow>
   fillPassword charset array len i password =
     password @ map (\<lambda>b. charset ! (unat b mod length charset)) (drop (nat i) array)"
proof (induction charset array len i password rule: fillPassword.induct)
  case (1 charset array len i password)
  show ?case
  proof (cases "i < len")
    case True
    with 1 have "nat i < length array" by simp
    then have d: "drop (nat i) array = array ! nat i # drop (nat (i + 1)) array"
      using "1.prems" by (simp add: Cons_nth_drop_Suc nat_add_distrib)
    have "fillPassword charset array len i password =
          fillPassword charset array len (i + 1) (password @ pick charset (byteAt array i))"
      using True by (subst fillPassword.simps) simp
    also have "\<dots> = (password @ pick charset (byteAt array i)) @
        map (\<lambda>b. charset ! (unat b mod length charset)) (drop (nat (i + 1)) array)"
      using True "1.prems" by (intro "1.IH") auto
    finally show ?thesis
      using True "1.prems" d by (simp add: pick_def byteAt_def)
  next
    case False
    then show ?thesis using "1.prems" by (subst fillPassword.simps) simp
  qed
qed

lemma length_nextBytes: "length (nextBytes n src) = n"
  by (simp add: nextBytes_def)

lemma generatePassword_empty:
  "composeCharset (destructure options) = [] \<Longrightarrow>
   generatePassword options src = (Inl EmptyAlphabetError, src)"
  by (simp add: generatePassword_def Let_def)

lemma generatePassword_range:
  "composeCharset (destructure options) \<noteq> [] \<Longrightarrow>
   po_length options < 0 \<or> po_length options > 2147483647 \<Longrightarrow>
   generatePassword options src = (Inl RangeError, src)"
  by (auto simp add: generatePassword_def Let_def randomBytes_def destructure_def)

lemma generatePassword_ok:
  assumes "composeCharset (destructure options) \<noteq> []"
    and "0 \<le> po_length options" and "po_length options \<le> 2147483647"
  shows "generatePassword options src =
     (Inr (map (\<lambda>b. composeCharset (destructure options) !
                    (unat b mod length (composeCharset (destructure options))))
            (nextBytes (nat (po_length options)) src)),
      src\<lparr>drawn := drawn src + nat (po_length options)\<rparr>)"
proof -
  have len: "b_length (destructure options) = po_length options"
    by (simp add: destructure_def)
  show ?thesis
    using assms
    by (simp add: generatePassword_def Let_def randomBytes_def len fillPassword_eq length_nextBytes)
qed

text \<open>
  C2. The character set of a call is the concatenation, in this order, of the lowercase,
  uppercase, numbers and symbols sets, each present exactly when its flag is true; when
  the ambiguous characters are excluded, every occurrence of every character of
  \<^verbatim>\<open>il1Lo0O\<close> is removed from that concatenation and the remaining characters keep
  their order.
\<close>

theorem composeCharset_is_filtered_concatenation:
  "composeCharset b =
     (if b_excludeAmbiguous b then filter (\<lambda>c. c \<notin> set ''il1Lo0O'') else id)
       ((if b_includeLowercase b then ''abcdefghijklmnopqrstuvwxyz'' else []) @
        (if b_includeUppercase b then ''ABCDEFGHIJKLMNOPQRSTUVWXYZ'' else []) @
        (if b_includeNumbers b then ''0123456789'' else []) @
        (if b_includeSymbols b then ''!@#$%^&*()_+-=[]{}|;:,.<>?'' else []))"
  unfolding composeCharset_concat
  by (simp add: CHAR_SETS_lowercase_def CHAR_SETS_uppercase_def
      CHAR_SETS_numbers_def CHAR_SETS_symbols_def CHAR_SETS_ambiguous_def)

subsection \<open>Generated passwords\<close>

text \<open>Concrete data for the examples: a call for three digits without the ambiguous ones.\<close>

lemma example_charset:
  "composeCharset (destructure \<lparr>po_length = 3, includeLowercase = Some False,
      includeUppercase = Some False, includeNumbers = Some True, includeSymbols = None,
      excludeAmbiguous = Some True\<rparr>) = ''23456789''"
  by (simp add: composeCharset_def destructure_def orDefault_def strip_numbers)

lemma example_bytes:
  "nextBytes 3 \<lparr>stream = (\<lambda>i. 7 * of_nat i + 250), drawn = 0\<rparr> = [250, 1, 8]"
  by (simp add: nextBytes_def upt_rec)

lemma example_bytes_shifted:
  "nextBytes 3 \<lparr>stream = (\<lambda>i. 7 * of_nat i + 229), drawn = 3\<rparr> = [250, 1, 8]"
  by (simp add: nextBytes_def upt_rec)

lemma example_password:
  "generatePassword \<lparr>po_length = 3, includeLowercase = Some False,
      includeUppercase = Some False, includeNumbers = Some True, includeSymbols = None,
      excludeAmbiguous = Some True\<rparr> \<lparr>stream = (\<lambda>i. 7 * of_nat i + 250), drawn = 0\<rparr> =
     (Inr ''432'', \<lparr>stream = (\<lambda>i. 7 * of_nat i + 250), drawn = 3\<rparr>)"
  by (simp add: generatePassword_ok example_charset example_bytes)

text \<open>
  C1. When the character set of the options is not empty and the length is between 1 and
  256, \<^verbatim>\<open>generatePassword\<close> returns a string of exactly that many characters, and every
  one of them is a character of that character set.
\<close>

theorem generatePassword_length_and_members:
  assumes "composeCharset (destructure options) \<noteq> []"
    and "1 \<le> po_length options" and "po_length options \<le> 256"
  shows "\<exists>password src'. generatePassword options src = (Inr password, src') \<and>
           int (length password) = po_length options \<and>
           set password \<subseteq> set (composeCharset (destructure options))"
proof -
  let ?charset = "composeCharset (destructure options)"
  let ?password = "map (\<lambda>b. ?charset ! (unat b mod length ?charset))
                     (nextBytes (nat (po_length options)) src)"
  have "generatePassword options src =
          (Inr ?password, src\<lparr>drawn := drawn src + nat (po_length options)\<rparr>)"
    using assms by (intro generatePassword_ok) auto
  moreover have "int (length ?password) = po_length options"
    using assms by (simp add: length_nextBytes)
  moreover have "set ?password \<subseteq> set ?charset"
    using assms(1) by (auto simp: set_conv_nth)
  ultimately show ?thesis by blast
qed

theorem generatePassword_length_and_members_witness:
  "composeCharset (destructure \<lparr>po_length = 3, includeLowercase = Some False,
      includeUppercase = Some False, includeNumbers = Some True, includeSymbols = None,
      excludeAmbiguous = Some True\<rparr>) \<noteq> [] \<and>
   (1 :: int) \<le> 3 \<and> (3 :: int) \<le> 256 \<and>
   (\<exists>password src'.
      generatePassword \<lparr>po_length = 3, includeLowercase = Some False,
        includeUppercase = Some False, includeNumbers = Some True, includeSymbols = None,
        excludeAmbiguous = Some True\<rparr> \<lparr>stream = (\<lambda>i. 7 * of_nat i + 250), drawn = 0\<rparr> =
        (Inr password, src') \<and>
      int (length password) = 3 \<and> set password \<subseteq> set ''23456789'')"
  using generatePassword_length_and_members
    [of "\<lparr>po_length = 3, includeLowercase = Some False,
        includeUppercase = Some False, includeNumbers = Some True, includeSymbols = None,
        excludeAmbiguous = Some True\<rparr>" "\<lparr>stream = (\<lambda>i. 7 * of_nat i + 250), drawn = 0\<rparr>"]
  by (simp add: example_charset)

subsection \<open>Reading the length\<close>

lemma of_char_digitChar: "d < 10 \<Longrightarrow> (of_char (digitChar d) :: nat) = 48 + d"
  by (simp add: digitChar_def)

lemma char_eq_code: "c = c' \<longleftrightarrow> (of_char c :: nat) = of_char c'"
  by (metis char_of_char)

lemma digitValue_digitChar: "d < 10 \<Longrightarrow> digitValue (digitChar d) = Some d"
  by (simp add: digitValue_def of_char_digitChar)

lemma isRadixDigit_digitChar: "d < 10 \<Longrightarrow> isRadixDigit 10 (digitChar d)"
  by (simp add: isRadixDigit_def digitValue_digitChar)

lemma decimal_digits: "c \<in> set (decimal n) \<Longrightarrow> \<exists>d<10. c = digitChar d"
proof (induction n rule: decimal.induct)
  case (1 n)
  show ?case
  proof (cases "10 \<le> n")
    case True
    with "1.prems" have "c \<in> set (decimal (n div 10)) \<or> c = digitChar (n mod 10)"
      by (subst (asm) decimal.simps) auto
    moreover have "n mod 10 < 10" by simp
    ultimately show ?thesis using "1.IH" True by blast
  next
    case False
    with "1.prems" have "c = digitChar n" by (subst (asm) decimal.simps) auto
    moreover have "n < 10" using False by simp
    ultimately show ?thesis by blast
  qed
qed

lemma mathInt_snoc:
  "mathInt R (Z @ [c]) = mathInt R Z * R + orDefault 0 (digitValue c)"
  by (simp add: mathInt_def)

lemma mathInt_decimal: "mathInt 10 (decimal n) = n"
proof (induction n rule: decimal.induct)
  case (1 n)
  show ?case
  proof (cases "10 \<le> n")
    case True
    then have "mathInt 10 (decimal n) = mathInt 10 (decimal (n div 10)) * 10 + n mod 10"
      by (subst decimal.simps) (simp add: mathInt_snoc digitValue_digitChar orDefault_def)
    then show ?thesis using "1.IH" True by simp
  next
    case False
    then show ?thesis
      by (subst decimal.simps) (simp add: mathInt_def digitValue_digitChar orDefault_def)
  qed
qed

lemma parseLength_Inr:
  "parseLength s = Inr len \<Longrightarrow> parseInt s = Some len \<and> 1 \<le> len \<and> len \<le> 256"
  by (auto simp: parseLength_def split: option.splits if_splits)

text \<open>
  C5. \<^verbatim>\<open>parseLength\<close> on \<^verbatim>\<open>"0"\<close>, \<^verbatim>\<open>"-5"\<close> and \<^verbatim>\<open>"abc"\<close> fails with the
  invalid-length error, on \<^verbatim>\<open>"257"\<close> with the length-too-large error, and on
  \<^verbatim>\<open>"256"\<close> it returns 256.
\<close>

theorem parseLength_examples:
  "parseLength ''0'' = Inl InvalidLengthError \<and>
   parseLength ''-5'' = Inl InvalidLengthError \<and>
   parseLength ''abc'' = Inl InvalidLengthError \<and>
   parseLength ''257'' = Inl LengthTooLargeError \<and>
   parseLength ''256'' = Inr 256"
  by (simp add: parseLength_def parseInt_def isWhiteSpace_def isRadixDigit_def digitValue_def
      mathInt_def orDefault_def)

text \<open>
  C4, as claimed: a text that is a number but not an integer, such as \<^verbatim>\<open>"12.5"\<close>, is
  rejected. It is not: \<^verbatim>\<open>parseInt\<close> stops at the point and the length is 12.
\<close>

theorem parseLength_truncates_counterexample:
  "parseLength ''12.5'' = Inr 12 \<and> parseLength ''12.5'' \<noteq> Inl InvalidLengthError"
  by (simp add: parseLength_def parseInt_def isWhiteSpace_def isRadixDigit_def digitValue_def
      mathInt_def orDefault_def)

lemma foldl_numeralValue:
  "foldl (\<lambda>acc c. acc * R + orDefault 0 (digitValue c)) a ds =
     a * R ^ length ds + numeralValue R ds"
  by (induction ds arbitrary: a) (simp_all add: algebra_simps)

lemma mathInt_numeralValue: "mathInt R ds = numeralValue R ds"
  by (simp add: mathInt_def foldl_numeralValue)

lemma takeWhile_digits:
  "list_all P ds \<Longrightarrow> \<not> startsWith P rest \<Longrightarrow> takeWhile P (ds @ rest) = ds"
  by (cases rest) (simp_all add: startsWith_def list_all_iff)

lemma radixDigit_codes:
  "isRadixDigit R c \<Longrightarrow>
     (48 \<le> (of_char c :: nat) \<and> (of_char c :: nat) \<le> 57) \<or>
     (65 \<le> (of_char c :: nat) \<and> (of_char c :: nat) \<le> 90) \<or>
     (97 \<le> (of_char c :: nat) \<and> (of_char c :: nat) \<le> 122)"
  by (auto simp: isRadixDigit_def digitValue_def Let_def split: if_splits option.splits)

lemma radixDigit_not_space: "isRadixDigit R c \<Longrightarrow> \<not> isWhiteSpace c"
  using radixDigit_codes [of R c] by (auto simp: isWhiteSpace_def)

lemma radixDigit_not_sign: "isRadixDigit R c \<Longrightarrow> \<not> isSign c"
  using radixDigit_codes [of R c] by (auto simp: isSign_def char_eq_code)

lemma sign_not_space: "isSign c \<Longrightarrow> \<not> isWhiteSpace c"
  by (auto simp: isSign_def isWhiteSpace_def)

lemma zero_is_digit: "isRadixDigit 10 CHR ''0''" "isRadixDigit 16 CHR ''0''"
  by (simp_all add: isRadixDigit_def digitValue_def)

lemma parseInt_skip_space: "list_all isWhiteSpace ws \<Longrightarrow> parseInt (ws @ s) = parseInt s"
proof -
  assume "list_all isWhiteSpace ws"
  then have "dropWhile isWhiteSpace (ws @ s) = dropWhile isWhiteSpace s"
    by (simp add: list_all_iff)
  then show ?thesis by (simp add: parseInt_def)
qed

lemma parseInt_sign_then_no_digit:
  assumes "isSign c" and "startsWith isWhiteSpace body \<or> startsWith isSign body"
  shows "parseInt (c # body) = None"
proof -
  obtain b bs where body: "body = b # bs" and b: "isWhiteSpace b \<or> isSign b"
    using assms(2) by (cases body) (auto simp: startsWith_def)
  have nd: "\<not> isRadixDigit 10 b"
    using b radixDigit_not_space radixDigit_not_sign by blast
  have nz: "b \<noteq> CHR ''0''"
    using nd zero_is_digit by auto
  have ws: "dropWhile isWhiteSpace (c # body) = c # body"
    using assms(1) sign_not_space by simp
  show ?thesis
    unfolding parseInt_def ws Let_def using assms(1) nd nz body by (simp add: isSign_def)
qed

lemma parseInt_signed:
  assumes "\<not> startsWith isWhiteSpace body" and "\<not> startsWith isSign body"
  shows "parseInt (CHR ''+'' # body) = parseInt body"
    and "parseInt (CHR ''-'' # body) = map_option uminus (parseInt body)"
proof -
  have ws: "dropWhile isWhiteSpace body = body"
    using assms(1) by (cases body) (simp_all add: startsWith_def)
  have wp: "dropWhile isWhiteSpace (CHR ''+'' # body) = CHR ''+'' # body"
    by (simp add: isWhiteSpace_def)
  have wm: "dropWhile isWhiteSpace (CHR ''-'' # body) = CHR ''-'' # body"
    by (simp add: isWhiteSpace_def)
  have ns: "body = [] \<or> (hd body \<noteq> CHR ''+'' \<and> hd body \<noteq> CHR ''-'')"
    using assms(2) by (cases body) (simp_all add: startsWith_def isSign_def)
  show "parseInt (CHR ''+'' # body) = parseInt body"
    unfolding parseInt_def wp ws Let_def using ns by auto
  show "parseInt (CHR ''-'' # body) = map_option uminus (parseInt body)"
    unfolding parseInt_def wm ws Let_def using ns by auto
qed

lemma parseInt_unsigned:
  assumes mk: "mk = [] \<or> mk = ''0x'' \<or> mk = ''0X''"
    and ds: "list_all (isRadixDigit (radixOf mk)) ds"
    and rest: "\<not> startsWith (isRadixDigit (radixOf mk)) rest"
    and sp: "\<not> startsWith isWhiteSpace (mk @ ds @ rest)"
    and sg: "\<not> startsWith isSign (mk @ ds @ rest)"
    and hx: "mk = [] \<Longrightarrow> take 2 (ds @ rest) \<noteq> ''0x'' \<and> take 2 (ds @ rest) \<noteq> ''0X''"
  shows "parseInt (mk @ ds @ rest) =
     (if ds = [] then None else Some (int (numeralValue (radixOf mk) ds)))"
proof -
  let ?body = "mk @ ds @ rest"
  have ws: "dropWhile isWhiteSpace ?body = ?body"
    using sp by (cases ?body) (simp_all add: startsWith_def)
  have ns: "?body = [] \<or> (hd ?body \<noteq> CHR ''+'' \<and> hd ?body \<noteq> CHR ''-'')"
    using sg by (cases ?body) (simp_all add: startsWith_def isSign_def)
  have Z: "takeWhile (isRadixDigit (radixOf mk)) (ds @ rest) = ds"
    using ds rest by (rule takeWhile_digits)
  have step: "parseInt ?body =
     (let hex = (take 2 ?body = ''0x'' \<or> take 2 ?body = ''0X'');
          R = (if hex then 16 else 10);
          S = (if hex then drop 2 ?body else ?body);
          Z = takeWhile (isRadixDigit R) S
      in if Z = [] then None else Some (int (mathInt R Z)))"
    unfolding parseInt_def ws using ns by (auto simp: Let_def)
  show ?thesis
  proof (cases "mk = []")
    case True
    with hx have "take 2 (ds @ rest) \<noteq> ''0x'' \<and> take 2 (ds @ rest) \<noteq> ''0X''" by simp
    with True Z show ?thesis
      unfolding step by (simp add: radixOf_def mathInt_numeralValue)
  next
    case False
    with mk have m: "mk = ''0x'' \<or> mk = ''0X''" by simp
    then have "take 2 ?body = mk" "drop 2 ?body = ds @ rest" by auto
    with m Z show ?thesis
      unfolding step by (auto simp: radixOf_def mathInt_numeralValue)
  qed
qed

lemma parts_body_not_blank:
  assumes mk: "mk = [] \<or> mk = ''0x'' \<or> mk = ''0X''"
    and ds: "list_all (isRadixDigit (radixOf mk)) ds"
    and st: "startsWith isWhiteSpace (mk @ ds @ rest) \<or> startsWith isSign (mk @ ds @ rest)"
  shows "mk = [] \<and> ds = []"
proof -
  have a: "mk = []"
  proof (rule ccontr)
    assume "mk \<noteq> []"
    with mk have "mk = ''0x'' \<or> mk = ''0X''" by simp
    then have "isWhiteSpace CHR ''0'' \<or> isSign CHR ''0''"
      using st by (auto simp: startsWith_def)
    then show False
      using zero_is_digit(1) radixDigit_not_space radixDigit_not_sign by blast
  qed
  have "ds = []"
  proof (rule ccontr)
    assume "ds \<noteq> []"
    then obtain d dd where d: "ds = d # dd" by (cases ds) auto
    with ds have "isRadixDigit (radixOf mk) d" by simp
    moreover have "isWhiteSpace d \<or> isSign d"
      using st a d by (simp add: startsWith_def)
    ultimately show False
      using radixDigit_not_space radixDigit_not_sign by blast
  qed
  with a show ?thesis by simp
qed

lemma parseInt_parts:
  assumes "numeralParts ws sg mk ds rest"
  shows "parseInt (ws @ sg @ mk @ ds @ rest) =
     (if ds = [] then None
      else Some ((if sg = ''-'' then - 1 else 1) * int (numeralValue (radixOf mk) ds)))"
proof -
  let ?body = "mk @ ds @ rest"
  from assms have ws: "list_all isWhiteSpace ws"
    and sg: "sg = [] \<or> sg = ''+'' \<or> sg = ''-''"
    and mk: "mk = [] \<or> mk = ''0x'' \<or> mk = ''0X''"
    and ds: "list_all (isRadixDigit (radixOf mk)) ds"
    and rest: "\<not> startsWith (isRadixDigit (radixOf mk)) rest"
    and ns: "sg = [] \<Longrightarrow> \<not> startsWith isWhiteSpace ?body \<and> \<not> startsWith isSign ?body"
    and hx: "mk = [] \<Longrightarrow> take 2 (ds @ rest) \<noteq> ''0x'' \<and> take 2 (ds @ rest) \<noteq> ''0X''"
    by (simp_all add: numeralParts_def)
  have skip: "parseInt (ws @ sg @ ?body) = parseInt (sg @ ?body)"
    using ws by (rule parseInt_skip_space)
  show ?thesis
  proof (cases "startsWith isWhiteSpace ?body \<or> startsWith isSign ?body")
    case True
    then have e: "mk = [] \<and> ds = []"
      using mk ds by (intro parts_body_not_blank) auto
    from True ns sg have "sg = ''+'' \<or> sg = ''-''" by auto
    then obtain c where c: "sg = [c]" "isSign c" by (auto simp: isSign_def)
    have "parseInt (c # ?body) = None"
      using c(2) True by (rule parseInt_sign_then_no_digit)
    then show ?thesis using skip c e by simp
  next
    case False
    then have u: "parseInt ?body =
       (if ds = [] then None else Some (int (numeralValue (radixOf mk) ds)))"
      using mk ds rest hx by (intro parseInt_unsigned) auto
    from sg show ?thesis
    proof (elim disjE)
      assume "sg = []"
      then show ?thesis using skip u by simp
    next
      assume "sg = ''+''"
      then show ?thesis using skip u parseInt_signed(1) False by simp
    next
      assume "sg = ''-''"
      then show ?thesis using skip u parseInt_signed(2) False by simp
    qed
  qed
qed

lemma not_startsWith_dropWhile: "\<not> startsWith P (dropWhile P xs)"
  by (induction xs) (simp_all add: startsWith_def)

lemma parts_exist: "\<exists>ws sg mk ds rest. s = ws @ sg @ mk @ ds @ rest \<and> numeralParts ws sg mk ds rest"
proof -
  define ws where "ws = takeWhile isWhiteSpace s"
  define s1 where "s1 = dropWhile isWhiteSpace s"
  define sg where "sg = (if startsWith isSign s1 then [hd s1] else [])"
  define body where "body = (if startsWith isSign s1 then tl s1 else s1)"
  define mk where "mk = (if take 2 body = ''0x'' \<or> take 2 body = ''0X'' then take 2 body else [])"
  define s3 where "s3 = (if take 2 body = ''0x'' \<or> take 2 body = ''0X'' then drop 2 body else body)"
  define ds where "ds = takeWhile (isRadixDigit (radixOf mk)) s3"
  define rest where "rest = dropWhile (isRadixDigit (radixOf mk)) s3"
  have s: "s = ws @ s1" by (simp add: ws_def s1_def)
  have s1: "s1 = sg @ body"
    by (cases s1) (simp_all add: sg_def body_def startsWith_def)
  have body: "body = mk @ s3"
    by (simp add: mk_def s3_def)
  have s3: "s3 = ds @ rest" by (simp add: ds_def rest_def)
  have p1: "list_all isWhiteSpace ws"
    by (simp add: ws_def list_all_iff) (meson set_takeWhileD)
  have p2: "sg = [] \<or> sg = ''+'' \<or> sg = ''-''"
    by (cases s1) (auto simp: sg_def startsWith_def isSign_def)
  have p3: "mk = [] \<or> mk = ''0x'' \<or> mk = ''0X''"
    by (auto simp: mk_def)
  have p4: "list_all (isRadixDigit (radixOf mk)) ds"
    by (simp add: ds_def list_all_iff) (meson set_takeWhileD)
  have p5: "\<not> startsWith (isRadixDigit (radixOf mk)) rest"
    unfolding rest_def by (rule not_startsWith_dropWhile)
  have n1: "\<not> startsWith isWhiteSpace s1"
    unfolding s1_def by (rule not_startsWith_dropWhile)
  have p6: "sg = [] \<Longrightarrow>
      \<not> startsWith isWhiteSpace (mk @ ds @ rest) \<and> \<not> startsWith isSign (mk @ ds @ rest)"
  proof -
    assume e: "sg = []"
    then have "\<not> startsWith isSign s1"
      by (auto simp: sg_def split: if_splits)
    moreover from e s1 body s3 have "mk @ ds @ rest = s1" by simp
    ultimately show ?thesis using n1 by simp
  qed
  have p7: "mk = [] \<Longrightarrow> take 2 (ds @ rest) \<noteq> ''0x'' \<and> take 2 (ds @ rest) \<noteq> ''0X''"
  proof -
    assume e: "mk = []"
    then have "\<not> (take 2 body = ''0x'' \<or> take 2 body = ''0X'')"
      by (auto simp: mk_def split: if_splits)
    moreover from e body s3 have "ds @ rest = body" by simp
    ultimately show ?thesis by simp
  qed
  have "numeralParts ws sg mk ds rest"
    unfolding numeralParts_def using p1 p2 p3 p4 p5 p6 p7 by simp
  moreover have "s = ws @ sg @ mk @ ds @ rest"
    using s s1 body s3 by simp
  ultimately show ?thesis by blast
qed

lemma numeralValue_append:
  "numeralValue R (xs @ ys) = numeralValue R xs * R ^ length ys + numeralValue R ys"
  by (induction xs) (simp_all add: algebra_simps power_add)

lemma numeralValue_zeros: "numeralValue R (replicate k CHR ''0'') = 0"
  by (induction k) (simp_all add: digitValue_def orDefault_def)

lemma numeralValue_decimal: "numeralValue 10 (replicate k CHR ''0'' @ decimal n) = n"
  using mathInt_decimal [of n]
  by (simp add: numeralValue_append numeralValue_zeros mathInt_numeralValue)

lemma digits_decimal: "list_all (isRadixDigit 10) (replicate k CHR ''0'' @ decimal n)"
proof -
  have "\<forall>c\<in>set (decimal n). isRadixDigit 10 c"
    using decimal_digits isRadixDigit_digitChar by blast
  then show ?thesis
    using zero_is_digit(1) by (auto simp: list_all_iff)
qed

text \<open>
  C4, as the code has it. Every text is white space, a sign, a marker, digits and a
  remainder in the sense of \<open>numeralParts\<close>, and \<^verbatim>\<open>parseLength\<close> is decided by the
  sign and the digits alone: it fails with the invalid-length error when there is no digit
  or the signed value of the digits is less than 1, fails with the length-too-large error
  when that value exceeds 256, and returns that value otherwise. The remainder is ignored,
  which is why \<^verbatim>\<open>"12.5"\<close> is 12. The value of the digits is the number they write:
  leading zeros in front of the decimal numeral of \<open>n\<close> are digits with value \<open>n\<close>.
\<close>

theorem parseLength_leading_integer:
  "(numeralParts ws sg mk ds rest \<longrightarrow>
      parseLength (ws @ sg @ mk @ ds @ rest) =
        (let v = (if sg = ''-'' then - 1 else 1) * int (numeralValue (radixOf mk) ds)
         in if ds = [] then Inl InvalidLengthError
            else if v < 1 then Inl InvalidLengthError
            else if 256 < v then Inl LengthTooLargeError
            else Inr v)) \<and>
   (\<exists>ws sg mk ds rest. s = ws @ sg @ mk @ ds @ rest \<and> numeralParts ws sg mk ds rest) \<and>
   list_all (isRadixDigit 10) (replicate k CHR ''0'' @ decimal n) \<and>
   numeralValue 10 (replicate k CHR ''0'' @ decimal n) = n"
proof (intro conjI impI)
  assume "numeralParts ws sg mk ds rest"
  then show "parseLength (ws @ sg @ mk @ ds @ rest) =
        (let v = (if sg = ''-'' then - 1 else 1) * int (numeralValue (radixOf mk) ds)
         in if ds = [] then Inl InvalidLengthError
            else if v < 1 then Inl InvalidLengthError
            else if 256 < v then Inl LengthTooLargeError
            else Inr v)"
    by (simp add: parseLength_def parseInt_parts Let_def)
next
  show "\<exists>ws sg mk ds rest. s = ws @ sg @ mk @ ds @ rest \<and> numeralParts ws sg mk ds rest"
    by (rule parts_exist)
next
  show "list_all (isRadixDigit 10) (replicate k CHR ''0'' @ decimal n)"
    by (rule digits_decimal)
next
  show "numeralValue 10 (replicate k CHR ''0'' @ decimal n) = n"
    by (rule numeralValue_decimal)
qed

theorem parseLength_leading_integer_witness:
  "numeralParts '' '' ''+'' [] ''012'' ''.5'' \<and> parseLength '' +012.5'' = Inr 12 \<and>
   numeralParts '' '' [] [] ''300'' [] \<and> parseLength '' 300'' = Inl LengthTooLargeError \<and>
   numeralParts [] ''+'' [] ''0'' [] \<and> parseLength ''+0'' = Inl InvalidLengthError \<and>
   numeralParts [] [] [] ''0300'' [] \<and> parseLength ''0300'' = Inl LengthTooLargeError \<and>
   numeralParts [] [] ''0x'' ''101'' [] \<and> parseLength ''0x101'' = Inl LengthTooLargeError \<and>
   numeralParts [] ''-'' [] ''5'' ''px'' \<and> parseLength ''-5px'' = Inl InvalidLengthError \<and>
   numeralParts [] [] [] [] ''abc'' \<and> parseLength ''abc'' = Inl InvalidLengthError"
proof -
  have p1: "numeralParts '' '' ''+'' [] ''012'' ''.5''"
    by (simp add: numeralParts_def isWhiteSpace_def isRadixDigit_def digitValue_def radixOf_def
        startsWith_def isSign_def)
  have p2: "numeralParts '' '' [] [] ''300'' []"
    by (simp add: numeralParts_def isWhiteSpace_def isRadixDigit_def digitValue_def radixOf_def
        startsWith_def isSign_def)
  have p3: "numeralParts [] ''+'' [] ''0'' []"
    by (simp add: numeralParts_def isWhiteSpace_def isRadixDigit_def digitValue_def radixOf_def
        startsWith_def isSign_def)
  have p4: "numeralParts [] [] [] ''0300'' []"
    by (simp add: numeralParts_def isWhiteSpace_def isRadixDigit_def digitValue_def radixOf_def
        startsWith_def isSign_def)
  have p5: "numeralParts [] [] ''0x'' ''101'' []"
    by (simp add: numeralParts_def isWhiteSpace_def isRadixDigit_def digitValue_def radixOf_def
        startsWith_def isSign_def)
  have p6: "numeralParts [] ''-'' [] ''5'' ''px''"
    by (simp add: numeralParts_def isWhiteSpace_def isRadixDigit_def digitValue_def radixOf_def
        startsWith_def isSign_def)
  have p7: "numeralParts [] [] [] [] ''abc''"
    by (simp add: numeralParts_def isWhiteSpace_def isRadixDigit_def digitValue_def radixOf_def
        startsWith_def isSign_def)
  have q1: "parseLength '' +012.5'' = Inr 12"
    using parseLength_leading_integer [of "'' ''" "''+''" "[]" "''012''" "''.5''"] p1
    by (simp add: radixOf_def digitValue_def orDefault_def)
  have q2: "parseLength '' 300'' = Inl LengthTooLargeError"
    using parseLength_leading_integer [of "'' ''" "[]" "[]" "''300''" "[]"] p2
    by (simp add: radixOf_def digitValue_def orDefault_def)
  have q3: "parseLength ''+0'' = Inl InvalidLengthError"
    using parseLength_leading_integer [of "[]" "''+''" "[]" "''0''" "[]"] p3
    by (simp add: radixOf_def digitValue_def orDefault_def)
  have q4: "parseLength ''0300'' = Inl LengthTooLargeError"
    using parseLength_leading_integer [of "[]" "[]" "[]" "''0300''" "[]"] p4
    by (simp add: radixOf_def digitValue_def orDefault_def)
  have q5: "parseLength ''0x101'' = Inl LengthTooLargeError"
    using parseLength_leading_integer [of "[]" "[]" "''0x''" "''101''" "[]"] p5
    by (simp add: radixOf_def digitValue_def orDefault_def)
  have q6: "parseLength ''-5px'' = Inl InvalidLengthError"
    using parseLength_leading_integer [of "[]" "''-''" "[]" "''5''" "''px''"] p6
    by (simp add: radixOf_def digitValue_def orDefault_def)
  have q7: "parseLength ''abc'' = Inl InvalidLengthError"
    using parseLength_leading_integer [of "[]" "[]" "[]" "[]" "''abc''"] p7
    by simp
  from p1 p2 p3 p4 p5 p6 p7 q1 q2 q3 q4 q5 q6 q7 show ?thesis by blast
qed

subsection \<open>Bytes and characters\<close>

lemma nth_nextBytes: "i < n \<Longrightarrow> nextBytes n src ! i = stream src (drawn src + i)"
  by (simp add: nextBytes_def)

lemma generatePassword_error_keeps_source:
  "fst (generatePassword options src) = Inl e \<Longrightarrow> snd (generatePassword options src) = src"
  by (auto simp: generatePassword_def Let_def randomBytes_def split: if_splits)

text \<open>
  C6. For a character set that is not empty and a validated length, \<^verbatim>\<open>generatePassword\<close>
  takes exactly that many bytes from the random source, and the character at each position
  of the password is the character of the character set at the index that is the byte of
  that position modulo the size of the character set.
\<close>

theorem generatePassword_draws_and_indexes:
  assumes "composeCharset (destructure options) \<noteq> []"
    and "1 \<le> po_length options" and "po_length options \<le> 256"
  shows "\<exists>password src'. generatePassword options src = (Inr password, src') \<and>
           drawn src' = drawn src + nat (po_length options) \<and>
           stream src' = stream src \<and>
           length password = nat (po_length options) \<and>
           (\<forall>i < nat (po_length options).
              password ! i =
                composeCharset (destructure options) !
                  (unat (stream src (drawn src + i)) mod
                     length (composeCharset (destructure options))))"
proof -
  let ?charset = "composeCharset (destructure options)"
  let ?n = "nat (po_length options)"
  let ?password = "map (\<lambda>b. ?charset ! (unat b mod length ?charset)) (nextBytes ?n src)"
  let ?src' = "src\<lparr>drawn := drawn src + ?n\<rparr>"
  have g: "generatePassword options src = (Inr ?password, ?src')"
    using assms by (intro generatePassword_ok) auto
  have l: "length ?password = ?n"
    by (simp add: length_nextBytes)
  have "\<forall>i < ?n. ?password ! i = ?charset ! (unat (stream src (drawn src + i)) mod length ?charset)"
    by (simp add: length_nextBytes nth_nextBytes)
  with g l show ?thesis by force
qed

theorem generatePassword_draws_and_indexes_witness:
  "composeCharset (destructure \<lparr>po_length = 3, includeLowercase = Some False,
      includeUppercase = Some False, includeNumbers = Some True, includeSymbols = None,
      excludeAmbiguous = Some True\<rparr>) \<noteq> [] \<and>
   (1 :: int) \<le> 3 \<and> (3 :: int) \<le> 256 \<and>
   (\<exists>password src'.
      generatePassword \<lparr>po_length = 3, includeLowercase = Some False,
        includeUppercase = Some False, includeNumbers = Some True, includeSymbols = None,
        excludeAmbiguous = Some True\<rparr> \<lparr>stream = (\<lambda>i. 7 * of_nat i + 250), drawn = 0\<rparr> =
        (Inr password, src') \<and>
      drawn src' = 3 \<and> length password = 3 \<and>
      password ! 0 = ''23456789'' ! (unat (250 :: byte) mod 8) \<and>
      password ! 1 = ''23456789'' ! (unat (1 :: byte) mod 8) \<and>
      password ! 2 = ''23456789'' ! (unat (8 :: byte) mod 8))"
proof -
  let ?options = "\<lparr>po_length = 3, includeLowercase = Some False,
        includeUppercase = Some False, includeNumbers = Some True, includeSymbols = None,
        excludeAmbiguous = Some True\<rparr>"
  let ?src = "\<lparr>stream = (\<lambda>i. 7 * of_nat i + 250 :: byte), drawn = 0\<rparr>"
  have h: "composeCharset (destructure ?options) \<noteq> []"
    by (simp add: example_charset)
  obtain password src' where g: "generatePassword ?options ?src = (Inr password, src')"
    and d: "drawn src' = 3" and l: "length password = 3"
    and a: "\<forall>i<3. password ! i = ''23456789'' ! (unat (stream ?src (drawn ?src + i)) mod 8)"
    using generatePassword_draws_and_indexes [of ?options ?src] h
    by (auto simp: example_charset)
  have "password ! 0 = ''23456789'' ! (unat (250 :: byte) mod 8)"
    using a [rule_format, of 0] by simp
  moreover have "password ! 1 = ''23456789'' ! (unat (1 :: byte) mod 8)"
    using a [rule_format, of 1] by simp
  moreover have "password ! 2 = ''23456789'' ! (unat (8 :: byte) mod 8)"
    using a [rule_format, of 2] by simp
  ultimately show ?thesis
    using g d l h by auto
qed

text \<open>
  C10. The result of \<^verbatim>\<open>generatePassword\<close> is determined by the options and the bytes the
  random source hands out: two sources whose next bytes agree, as many as the length asks
  for, give the same result, whatever else differs between them.
\<close>

theorem generatePassword_determined_by_bytes:
  assumes "nextBytes (nat (po_length options)) src1 = nextBytes (nat (po_length options)) src2"
  shows "fst (generatePassword options src1) = fst (generatePassword options src2)"
proof (cases "composeCharset (destructure options) = []")
  case True
  then show ?thesis by (simp add: generatePassword_empty)
next
  case False
  show ?thesis
  proof (cases "po_length options < 0 \<or> po_length options > 2147483647")
    case True
    with False show ?thesis by (simp add: generatePassword_range)
  next
    case False
    with \<open>composeCharset (destructure options) \<noteq> []\<close> assms show ?thesis
      by (simp add: generatePassword_ok)
  qed
qed

theorem generatePassword_determined_by_bytes_witness:
  "nextBytes 3 \<lparr>stream = (\<lambda>i. 7 * of_nat i + 250), drawn = 0\<rparr> =
     nextBytes 3 \<lparr>stream = (\<lambda>i. 7 * of_nat i + 229), drawn = 3\<rparr> \<and>
   fst (generatePassword \<lparr>po_length = 3, includeLowercase = Some False,
        includeUppercase = Some False, includeNumbers = Some True, includeSymbols = None,
        excludeAmbiguous = Some True\<rparr> \<lparr>stream = (\<lambda>i. 7 * of_nat i + 250), drawn = 0\<rparr>) =
   fst (generatePassword \<lparr>po_length = 3, includeLowercase = Some False,
        includeUppercase = Some False, includeNumbers = Some True, includeSymbols = None,
        excludeAmbiguous = Some True\<rparr> \<lparr>stream = (\<lambda>i. 7 * of_nat i + 229), drawn = 3\<rparr>)"
proof -
  have b: "nextBytes 3 \<lparr>stream = (\<lambda>i. 7 * of_nat i + 250), drawn = 0\<rparr> =
     nextBytes 3 \<lparr>stream = (\<lambda>i. 7 * of_nat i + 229), drawn = 3\<rparr>"
    by (simp only: example_bytes example_bytes_shifted)
  show ?thesis
    using b generatePassword_determined_by_bytes
      [of "\<lparr>po_length = 3, includeLowercase = Some False,
        includeUppercase = Some False, includeNumbers = Some True, includeSymbols = None,
        excludeAmbiguous = Some True\<rparr>" "\<lparr>stream = (\<lambda>i. 7 * of_nat i + 250), drawn = 0\<rparr>"
        "\<lparr>stream = (\<lambda>i. 7 * of_nat i + 229), drawn = 3\<rparr>"]
    by simp
qed

subsection \<open>Errors and the random source\<close>

lemma handle_length_error:
  "parseLength (co_length options) = Inl e \<Longrightarrow>
   handlePasswordGeneration options passwordOptions w =
     process_exit 1 (console_error (lengthMessage e) w)"
  by (simp add: handlePasswordGeneration_def)

lemma handle_generate_error:
  "parseLength (co_length options) = Inr len \<Longrightarrow>
   generatePassword (passwordOptionsObject len options passwordOptions) (rng w) = (Inl e, src) \<Longrightarrow>
   handlePasswordGeneration options passwordOptions w =
     process_exit 1 (console_error (ErrorGeneratingPassword e) (w\<lparr>rng := src\<rparr>))"
  by (simp add: handlePasswordGeneration_def)

lemma handle_success:
  "parseLength (co_length options) = Inr len \<Longrightarrow>
   generatePassword (passwordOptionsObject len options passwordOptions) (rng w) =
     (Inr password, src) \<Longrightarrow>
   handlePasswordGeneration options passwordOptions w =
     (if truthy (co_copy options) then copyToClipboard password (w\<lparr>rng := src\<rparr>)
      else console_log (GeneratedPassword password) (w\<lparr>rng := src\<rparr>))"
  by (simp add: handlePasswordGeneration_def)

lemma exitCode_copyToClipboard: "exitCode (copyToClipboard text w) = exitCode w"
  by (simp add: copyToClipboard_def console_log_def console_error_def split: option.splits)

lemma handle_exit_keeps_world:
  assumes "exitCode w = None" and "exitCode (handlePasswordGeneration options passwordOptions w) \<noteq> None"
  shows "rng (handlePasswordGeneration options passwordOptions w) = rng w \<and>
         stdout (handlePasswordGeneration options passwordOptions w) = stdout w \<and>
         clipboard (handlePasswordGeneration options passwordOptions w) = clipboard w"
proof (cases "parseLength (co_length options)")
  case (Inl e)
  then show ?thesis
    by (simp add: handle_length_error process_exit_def console_error_def)
next
  case (Inr len)
  obtain r src where g:
    "generatePassword (passwordOptionsObject len options passwordOptions) (rng w) = (r, src)"
    by (cases "generatePassword (passwordOptionsObject len options passwordOptions) (rng w)")
  show ?thesis
  proof (cases r)
    case (Inl e)
    with g have "src = rng w"
      using generatePassword_error_keeps_source
        [of "passwordOptionsObject len options passwordOptions" "rng w" e] by simp
    with Inr g Inl show ?thesis
      by (simp add: handle_generate_error process_exit_def console_error_def)
  next
    case (Inr password)
    with \<open>parseLength (co_length options) = Inr len\<close> g
    have "exitCode (handlePasswordGeneration options passwordOptions w) = exitCode w"
      by (simp add: handle_success exitCode_copyToClipboard console_log_def)
    with assms show ?thesis by simp
  qed
qed

lemma all_flags_false_empty:
  "includeLowercase options = Some False \<Longrightarrow> includeUppercase options = Some False \<Longrightarrow>
   includeNumbers options = Some False \<Longrightarrow> includeSymbols options = Some False \<Longrightarrow>
   composeCharset (destructure options) = []"
  by (simp add: composeCharset_empty_iff destructure_def orDefault_def)

lemma parseLength_8: "parseLength ''8'' = Inr 8"
  by (simp add: parseLength_def parseInt_def isWhiteSpace_def isRadixDigit_def digitValue_def
      mathInt_def orDefault_def)

lemma noSets_generate:
  "generatePassword (passwordOptionsObject 8 noSetsCommandOptions noPasswordOptions) src =
     (Inl EmptyAlphabetError, src)"
  by (rule generatePassword_empty, rule all_flags_false_empty)
     (simp_all add: passwordOptionsObject_def noSetsCommandOptions_def noPasswordOptions_def
        spread_def)

lemma noSets_run:
  "handlePasswordGeneration noSetsCommandOptions noPasswordOptions exampleWorld =
     exampleWorld\<lparr>stderr := [ErrorGeneratingPassword EmptyAlphabetError], exitCode := Some 1\<rparr>"
proof -
  have l: "parseLength (co_length noSetsCommandOptions) = Inr 8"
    by (simp add: noSetsCommandOptions_def parseLength_8)
  show ?thesis
    unfolding handle_generate_error [OF l noSets_generate]
    by (simp add: process_exit_def console_error_def exampleWorld_def)
qed

text \<open>
  C3. When the character set of the options is empty, and so whenever all four inclusion
  flags are false, \<^verbatim>\<open>generatePassword\<close> fails with the empty-alphabet error, returns no
  password and leaves the random source as it was; no failing call of
  \<^verbatim>\<open>generatePassword\<close> takes a byte. In \<^verbatim>\<open>handlePasswordGeneration\<close> the length is
  checked first: a rejected length ends the run with status 1 before the random source is
  touched, and every run that ends the process has drawn no byte, shown no password and
  left the clipboard alone.
\<close>

theorem errors_draw_no_randomness:
  "(composeCharset (destructure options) = [] \<longrightarrow>
      generatePassword options src = (Inl EmptyAlphabetError, src)) \<and>
   (includeLowercase options = Some False \<and> includeUppercase options = Some False \<and>
    includeNumbers options = Some False \<and> includeSymbols options = Some False \<longrightarrow>
      generatePassword options src = (Inl EmptyAlphabetError, src)) \<and>
   (fst (generatePassword options src) = Inl e \<longrightarrow> snd (generatePassword options src) = src) \<and>
   (parseLength (co_length copts) = Inl e' \<longrightarrow>
      rng (handlePasswordGeneration copts passwordOptions w) = rng w \<and>
      stdout (handlePasswordGeneration copts passwordOptions w) = stdout w \<and>
      exitCode (handlePasswordGeneration copts passwordOptions w) = Some 1) \<and>
   (exitCode w = None \<and> exitCode (handlePasswordGeneration copts passwordOptions w) \<noteq> None \<longrightarrow>
      rng (handlePasswordGeneration copts passwordOptions w) = rng w \<and>
      stdout (handlePasswordGeneration copts passwordOptions w) = stdout w \<and>
      clipboard (handlePasswordGeneration copts passwordOptions w) = clipboard w)"
proof (intro conjI impI)
  assume "composeCharset (destructure options) = []"
  then show "generatePassword options src = (Inl EmptyAlphabetError, src)"
    by (rule generatePassword_empty)
next
  assume "includeLowercase options = Some False \<and> includeUppercase options = Some False \<and>
    includeNumbers options = Some False \<and> includeSymbols options = Some False"
  then have "composeCharset (destructure options) = []"
    by (simp add: all_flags_false_empty)
  then show "generatePassword options src = (Inl EmptyAlphabetError, src)"
    by (rule generatePassword_empty)
next
  assume "fst (generatePassword options src) = Inl e"
  then show "snd (generatePassword options src) = src"
    by (rule generatePassword_error_keeps_source)
next
  assume l: "parseLength (co_length copts) = Inl e'"
  show "rng (handlePasswordGeneration copts passwordOptions w) = rng w"
    and "stdout (handlePasswordGeneration copts passwordOptions w) = stdout w"
    and "exitCode (handlePasswordGeneration copts passwordOptions w) = Some 1"
    by (simp_all add: handle_length_error [OF l] process_exit_def console_error_def)
next
  assume "exitCode w = None \<and> exitCode (handlePasswordGeneration copts passwordOptions w) \<noteq> None"
  then have k: "rng (handlePasswordGeneration copts passwordOptions w) = rng w \<and>
         stdout (handlePasswordGeneration copts passwordOptions w) = stdout w \<and>
         clipboard (handlePasswordGeneration copts passwordOptions w) = clipboard w"
    using handle_exit_keeps_world by blast
  from k show "rng (handlePasswordGeneration copts passwordOptions w) = rng w" by blast
  from k show "stdout (handlePasswordGeneration copts passwordOptions w) = stdout w" by blast
  from k show "clipboard (handlePasswordGeneration copts passwordOptions w) = clipboard w" by blast
qed

theorem errors_draw_no_randomness_witness:
  "composeCharset (destructure (passwordOptionsObject 8 noSetsCommandOptions noPasswordOptions)) = [] \<and>
   generatePassword (passwordOptionsObject 8 noSetsCommandOptions noPasswordOptions)
     (rng exampleWorld) = (Inl EmptyAlphabetError, rng exampleWorld) \<and>
   parseLength (co_length (noSetsCommandOptions\<lparr>co_length := ''abc''\<rparr>)) = Inl InvalidLengthError \<and>
   rng (handlePasswordGeneration (noSetsCommandOptions\<lparr>co_length := ''abc''\<rparr>)
          noPasswordOptions exampleWorld) = rng exampleWorld \<and>
   exitCode (handlePasswordGeneration (noSetsCommandOptions\<lparr>co_length := ''abc''\<rparr>)
          noPasswordOptions exampleWorld) = Some 1 \<and>
   exitCode exampleWorld = None \<and>
   exitCode (handlePasswordGeneration noSetsCommandOptions noPasswordOptions exampleWorld) \<noteq> None \<and>
   rng (handlePasswordGeneration noSetsCommandOptions noPasswordOptions exampleWorld) =
     rng exampleWorld \<and>
   stdout (handlePasswordGeneration noSetsCommandOptions noPasswordOptions exampleWorld) =
     stdout exampleWorld"
proof -
  have c: "composeCharset
      (destructure (passwordOptionsObject 8 noSetsCommandOptions noPasswordOptions)) = []"
    by (rule all_flags_false_empty)
       (simp_all add: passwordOptionsObject_def noSetsCommandOptions_def noPasswordOptions_def
          spread_def)
  have l: "parseLength (co_length (noSetsCommandOptions\<lparr>co_length := ''abc''\<rparr>)) =
      Inl InvalidLengthError"
    by (simp add: parseLength_def parseInt_def isWhiteSpace_def isRadixDigit_def
        digitValue_def mathInt_def orDefault_def)
  have x: "exitCode exampleWorld = None"
    by (simp add: exampleWorld_def)
  have y: "exitCode (handlePasswordGeneration noSetsCommandOptions noPasswordOptions exampleWorld)
      \<noteq> None"
    by (simp add: noSets_run)
  show ?thesis
    using c l x y
      errors_draw_no_randomness
        [of "passwordOptionsObject 8 noSetsCommandOptions noPasswordOptions" "rng exampleWorld"
          EmptyAlphabetError "noSetsCommandOptions\<lparr>co_length := ''abc''\<rparr>"
          InvalidLengthError noPasswordOptions exampleWorld]
      errors_draw_no_randomness
        [of "passwordOptionsObject 8 noSetsCommandOptions noPasswordOptions" "rng exampleWorld"
          EmptyAlphabetError noSetsCommandOptions InvalidLengthError noPasswordOptions
          exampleWorld]
    by simp
qed

subsection \<open>A clipboard that fails\<close>

lemma pin_charset:
  "composeCharset (destructure
      (passwordOptionsObject len (pinCommandOptions options) pinPasswordOptions)) = ''0123456789''"
  by (simp add: composeCharset_def destructure_def passwordOptionsObject_def
      pinCommandOptions_def pinPasswordOptions_def spread_def orDefault_def CHAR_SETS_numbers_def)

lemma parseLength_6: "parseLength ''6'' = Inr 6"
  by (simp add: parseLength_def parseInt_def isWhiteSpace_def isRadixDigit_def digitValue_def
      mathInt_def orDefault_def)

lemma example_six_bytes:
  "nextBytes 6 \<lparr>stream = (\<lambda>i. 7 * of_nat i + 250), drawn = 0\<rparr> = [250, 1, 8, 15, 22, 29]"
  by (simp add: nextBytes_def upt_rec)

lemma pin_example_password:
  "generatePassword (passwordOptionsObject 6 (pinCommandOptions pinDefaults) pinPasswordOptions)
      (rng brokenClipboardWorld) =
     (Inr ''018529'', \<lparr>stream = (\<lambda>i. 7 * of_nat i + 250), drawn = 6\<rparr>)"
proof -
  have len: "po_length (passwordOptionsObject 6 (pinCommandOptions pinDefaults) pinPasswordOptions) = 6"
    by (simp add: passwordOptionsObject_def pinPasswordOptions_def orDefault_def)
  have r: "rng brokenClipboardWorld = \<lparr>stream = (\<lambda>i. 7 * of_nat i + 250), drawn = 0\<rparr>"
    by (simp add: brokenClipboardWorld_def exampleWorld_def)
  show ?thesis
    by (subst generatePassword_ok) (simp_all add: pin_charset len r example_six_bytes)
qed

text \<open>
  C9. When a password has been generated and the write to the clipboard fails, the password
  is still printed: the standard output gains exactly the line with the generated password,
  the failure goes to the error stream, and the process is not ended.
\<close>

theorem password_shown_when_clipboard_fails:
  assumes "parseLength (co_length options) = Inr len"
    and "generatePassword (passwordOptionsObject len options passwordOptions) (rng w) =
           (Inr password, src')"
    and "clipboardFailure w = Some message"
  shows "stdout (handlePasswordGeneration options passwordOptions w) =
           stdout w @ [GeneratedPassword password] \<and>
         exitCode (handlePasswordGeneration options passwordOptions w) = exitCode w \<and>
         stdout (copyToClipboard password w) = stdout w @ [GeneratedPassword password] \<and>
         stderr (copyToClipboard password w) = stderr w @ [FailedToCopy message]"
  using assms(3)
  by (simp add: handle_success [OF assms(1,2)] copyToClipboard_def console_log_def
      console_error_def)

theorem password_shown_when_clipboard_fails_witness:
  "parseLength (co_length (pinCommandOptions pinDefaults)) = Inr 6 \<and>
   generatePassword (passwordOptionsObject 6 (pinCommandOptions pinDefaults) pinPasswordOptions)
      (rng brokenClipboardWorld) =
     (Inr ''018529'', \<lparr>stream = (\<lambda>i. 7 * of_nat i + 250), drawn = 6\<rparr>) \<and>
   clipboardFailure brokenClipboardWorld = Some ''clipboard unavailable'' \<and>
   truthy (co_copy (pinCommandOptions pinDefaults)) \<and>
   stdout (pinAction pinDefaults brokenClipboardWorld) = [GeneratedPassword ''018529''] \<and>
   exitCode (pinAction pinDefaults brokenClipboardWorld) = None"
proof -
  have l: "parseLength (co_length (pinCommandOptions pinDefaults)) = Inr 6"
    by (simp add: pinCommandOptions_def pinDefaults_def parseLength_6)
  have f: "clipboardFailure brokenClipboardWorld = Some ''clipboard unavailable''"
    by (simp add: brokenClipboardWorld_def)
  have t: "truthy (co_copy (pinCommandOptions pinDefaults))"
    by (simp add: truthy_def pinCommandOptions_def pinDefaults_def)
  have s: "stdout brokenClipboardWorld = [] \<and> exitCode brokenClipboardWorld = None"
    by (simp add: brokenClipboardWorld_def exampleWorld_def)
  show ?thesis
    using password_shown_when_clipboard_fails [OF l pin_example_password f] l f t s
      pin_example_password
    by (simp add: pinAction_def)
qed

subsection \<open>The default command\<close>

lemma parseLength_preset_defaults:
  "parseLength ''16'' = Inr 16" "parseLength ''12'' = Inr 12" "parseLength ''20'' = Inr 20"
  by (simp_all add: parseLength_def parseInt_def isWhiteSpace_def isRadixDigit_def digitValue_def
      mathInt_def orDefault_def)

lemma default_bindings:
  "destructure (passwordOptionsObject len defaultCommandOptions noPasswordOptions) =
     \<lparr> b_length = len, b_includeLowercase = True, b_includeUppercase = True,
       b_includeNumbers = True, b_includeSymbols = True, b_excludeAmbiguous = False \<rparr>"
  by (simp add: destructure_def passwordOptionsObject_def defaultCommandOptions_def
      noPasswordOptions_def spread_def orDefault_def)

lemma default_charset:
  "composeCharset (destructure (passwordOptionsObject len defaultCommandOptions noPasswordOptions)) =
     ''abcdefghijklmnopqrstuvwxyzABCDEFGHIJKLMNOPQRSTUVWXYZ0123456789!@#$%^&*()_+-=[]{}|;:,.<>?''"
  by (simp add: default_bindings composeCharset_def CHAR_SETS_lowercase_def
      CHAR_SETS_uppercase_def CHAR_SETS_numbers_def CHAR_SETS_symbols_def)

lemma sixteen_bytes:
  "nextBytes 16 \<lparr>stream = (\<lambda>i. 62), drawn = 0\<rparr> =
     [62, 62, 62, 62, 62, 62, 62, 62, 62, 62, 62, 62, 62, 62, 62, 62]"
  by (simp add: nextBytes_def upt_rec)

text \<open>
  C7, as claimed: with no preset and no option, symbols are excluded. They are not: the
  option is declared as \<^verbatim>\<open>--no-symbols\<close>, so \<^verbatim>\<open>options.symbols\<close> starts at
  \<^verbatim>\<open>true\<close>, and a source whose bytes are all 62 gives sixteen exclamation marks.
\<close>

theorem default_command_symbols_counterexample:
  "parseLength (co_length defaultCommandOptions) = Inr 16 \<and>
   b_includeSymbols
     (destructure (passwordOptionsObject 16 defaultCommandOptions noPasswordOptions)) \<and>
   fst (generatePassword (passwordOptionsObject 16 defaultCommandOptions noPasswordOptions)
          \<lparr>stream = (\<lambda>i. 62), drawn = 0\<rparr>) = Inr ''!!!!!!!!!!!!!!!!''"
proof -
  have len: "po_length (passwordOptionsObject 16 defaultCommandOptions noPasswordOptions) = 16"
    by (simp add: passwordOptionsObject_def noPasswordOptions_def orDefault_def)
  have "fst (generatePassword (passwordOptionsObject 16 defaultCommandOptions noPasswordOptions)
          \<lparr>stream = (\<lambda>i. 62), drawn = 0\<rparr>) = Inr ''!!!!!!!!!!!!!!!!''"
    by (subst generatePassword_ok)
       (simp_all add: default_charset len sixteen_bytes)
  moreover have "parseLength (co_length defaultCommandOptions) = Inr 16"
    by (simp add: defaultCommandOptions_def parseLength_preset_defaults)
  moreover have "b_includeSymbols
      (destructure (passwordOptionsObject 16 defaultCommandOptions noPasswordOptions))"
    by (simp add: default_bindings)
  ultimately show ?thesis by blast
qed

text \<open>
  C7, as the code has it. With no preset and no option, the length is 16, lowercase,
  uppercase, numbers and symbols are all included and the ambiguous characters are not
  excluded; the run generates a password of 16 characters of these four sets with that
  configuration and hands it to the clipboard.
\<close>

theorem default_command_configuration:
  "parseLength (co_length defaultCommandOptions) = Inr 16 \<and>
   destructure (passwordOptionsObject 16 defaultCommandOptions noPasswordOptions) =
     \<lparr> b_length = 16, b_includeLowercase = True, b_includeUppercase = True,
       b_includeNumbers = True, b_includeSymbols = True, b_excludeAmbiguous = False \<rparr> \<and>
   (\<exists>password src'.
      generatePassword (passwordOptionsObject 16 defaultCommandOptions noPasswordOptions) (rng w) =
        (Inr password, src') \<and>
      length password = 16 \<and>
      set password \<subseteq> set (CHAR_SETS_lowercase @ CHAR_SETS_uppercase @ CHAR_SETS_numbers @
                             CHAR_SETS_symbols) \<and>
      defaultAction defaultCommandOptions w = copyToClipboard password (w\<lparr>rng := src'\<rparr>))"
proof -
  let ?options = "passwordOptionsObject 16 defaultCommandOptions noPasswordOptions"
  have l: "parseLength (co_length defaultCommandOptions) = Inr 16"
    by (simp add: defaultCommandOptions_def parseLength_preset_defaults)
  have len: "po_length ?options = 16"
    by (simp add: passwordOptionsObject_def noPasswordOptions_def orDefault_def)
  have cs: "composeCharset (destructure ?options) =
      CHAR_SETS_lowercase @ CHAR_SETS_uppercase @ CHAR_SETS_numbers @ CHAR_SETS_symbols"
    by (simp add: default_bindings composeCharset_def)
  have ne: "composeCharset (destructure ?options) \<noteq> []"
    by (simp add: default_charset)
  define password where "password =
      map (\<lambda>b. composeCharset (destructure ?options) !
                 (unat b mod length (composeCharset (destructure ?options))))
        (nextBytes (nat (po_length ?options)) (rng w))"
  define src' where "src' = (rng w)\<lparr>drawn := drawn (rng w) + nat (po_length ?options)\<rparr>"
  have g: "generatePassword ?options (rng w) = (Inr password, src')"
    unfolding password_def src'_def using ne len by (intro generatePassword_ok) simp_all
  have n: "length password = 16"
    by (simp add: password_def length_nextBytes len)
  have m: "set password \<subseteq> set (composeCharset (destructure ?options))"
    unfolding password_def using ne by (auto simp: set_conv_nth)
  have "defaultAction defaultCommandOptions w = copyToClipboard password (w\<lparr>rng := src'\<rparr>)"
    unfolding defaultAction_def handle_success [OF l g]
    by (simp add: truthy_def defaultCommandOptions_def)
  then show ?thesis
    using l g n m len cs default_bindings [of 16] by auto
qed

text \<open>
  The default command of the earlier \<^verbatim>\<open>bin/passgen.js\<close> excluded symbols, and its
  \<^verbatim>\<open>simple\<close> command did too.
\<close>

lemma bin_default_bindings:
  "destructure (binDefaultPasswordOptions len) =
     \<lparr> b_length = len, b_includeLowercase = True, b_includeUppercase = True,
       b_includeNumbers = True, b_includeSymbols = False, b_excludeAmbiguous = False \<rparr>"
  by (simp add: destructure_def binDefaultPasswordOptions_def orDefault_def)

lemma bin_simple_bindings:
  "destructure (binSimplePasswordOptions len) =
     \<lparr> b_length = len, b_includeLowercase = True, b_includeUppercase = True,
       b_includeNumbers = True, b_includeSymbols = False, b_excludeAmbiguous = True \<rparr>"
  by (simp add: destructure_def binSimplePasswordOptions_def orDefault_def)

subsection \<open>The preset commands\<close>

lemma simple_bindings:
  "destructure (passwordOptionsObject len (simpleCommandOptions options) simplePasswordOptions) =
     \<lparr> b_length = len, b_includeLowercase = True, b_includeUppercase = True,
       b_includeNumbers = True, b_includeSymbols = True, b_excludeAmbiguous = True \<rparr>"
  by (simp add: destructure_def passwordOptionsObject_def simpleCommandOptions_def
      simplePasswordOptions_def spread_def orDefault_def)

lemma strong_bindings:
  "destructure (passwordOptionsObject len (strongCommandOptions options) strongPasswordOptions) =
     \<lparr> b_length = len, b_includeLowercase = True, b_includeUppercase = True,
       b_includeNumbers = True, b_includeSymbols = True, b_excludeAmbiguous = False \<rparr>"
  by (simp add: destructure_def passwordOptionsObject_def strongCommandOptions_def
      strongPasswordOptions_def spread_def orDefault_def)

lemma pin_bindings:
  "destructure (passwordOptionsObject len (pinCommandOptions options) pinPasswordOptions) =
     \<lparr> b_length = len, b_includeLowercase = False, b_includeUppercase = False,
       b_includeNumbers = True, b_includeSymbols = False, b_excludeAmbiguous = False \<rparr>"
  by (simp add: destructure_def passwordOptionsObject_def pinCommandOptions_def
      pinPasswordOptions_def spread_def orDefault_def)

lemma run_generates:
  assumes l: "parseLength (co_length copts) = Inr len"
    and p: "pp_length passwordOptions = None"
    and cs: "composeCharset (destructure (passwordOptionsObject len copts passwordOptions)) = charset"
    and ne: "charset \<noteq> []"
    and c: "truthy (co_copy copts)"
  shows "\<exists>password src'.
      generatePassword (passwordOptionsObject len copts passwordOptions) (rng w) =
        (Inr password, src') \<and>
      int (length password) = len \<and>
      set password \<subseteq> set charset \<and>
      handlePasswordGeneration copts passwordOptions w =
        copyToClipboard password (w\<lparr>rng := src'\<rparr>)"
proof -
  let ?options = "passwordOptionsObject len copts passwordOptions"
  have len: "po_length ?options = len"
    using p by (simp add: passwordOptionsObject_def orDefault_def)
  have b: "1 \<le> len" "len \<le> 256"
    using parseLength_Inr [OF l] by simp_all
  define password where "password =
      map (\<lambda>b. charset ! (unat b mod length charset)) (nextBytes (nat len) (rng w))"
  define src' where "src' = (rng w)\<lparr>drawn := drawn (rng w) + nat len\<rparr>"
  have "generatePassword ?options (rng w) =
     (Inr (map (\<lambda>b. composeCharset (destructure ?options) !
                    (unat b mod length (composeCharset (destructure ?options))))
            (nextBytes (nat (po_length ?options)) (rng w))),
      (rng w)\<lparr>drawn := drawn (rng w) + nat (po_length ?options)\<rparr>)"
    using b ne cs len by (intro generatePassword_ok) simp_all
  then have g: "generatePassword ?options (rng w) = (Inr password, src')"
    unfolding password_def src'_def cs len .
  have n: "int (length password) = len"
    using b by (simp add: password_def length_nextBytes)
  have m: "set password \<subseteq> set charset"
    unfolding password_def using ne by (auto simp: set_conv_nth)
  have "handlePasswordGeneration copts passwordOptions w =
      copyToClipboard password (w\<lparr>rng := src'\<rparr>)"
    unfolding handle_success [OF l g] using c by simp
  with g n m show ?thesis by blast
qed

lemma simple_charset:
  "composeCharset (destructure
      (passwordOptionsObject len (simpleCommandOptions options) simplePasswordOptions)) =
   ''abcdefghjkmnpqrstuvwxyzABCDEFGHIJKMNPQRSTUVWXYZ23456789!@#$%^&*()_+-=[]{}|;:,.<>?''"
  by (simp add: simple_bindings composeCharset_def stripAmbiguous_append strip_lowercase
      strip_uppercase strip_numbers strip_symbols)
     (simp add: CHAR_SETS_symbols_def stripAmbiguous_filter)

lemma strong_charset:
  "composeCharset (destructure
      (passwordOptionsObject len (strongCommandOptions options) strongPasswordOptions)) =
   ''abcdefghijklmnopqrstuvwxyzABCDEFGHIJKLMNOPQRSTUVWXYZ0123456789!@#$%^&*()_+-=[]{}|;:,.<>?''"
  by (simp add: strong_bindings composeCharset_def CHAR_SETS_lowercase_def
      CHAR_SETS_uppercase_def CHAR_SETS_numbers_def CHAR_SETS_symbols_def)

text \<open>
  C8. With no option, \<^verbatim>\<open>simple\<close> generates with length 12, all four sets included and
  the ambiguous characters excluded; \<^verbatim>\<open>strong\<close> with length 20, all four sets included
  and nothing excluded; \<^verbatim>\<open>pin\<close> with length 6 and numbers only. Each command
  generates its password with that configuration and hands it to the clipboard: twelve
  characters of the four sets without the ambiguous ones, twenty characters of the four
  sets, and six characters that are all digits.
\<close>

theorem preset_configurations:
  "parseLength (co_length (simpleCommandOptions simpleDefaults)) = Inr 12 \<and>
   destructure (passwordOptionsObject 12 (simpleCommandOptions simpleDefaults)
                  simplePasswordOptions) =
     \<lparr> b_length = 12, b_includeLowercase = True, b_includeUppercase = True,
       b_includeNumbers = True, b_includeSymbols = True, b_excludeAmbiguous = True \<rparr> \<and>
   (\<exists>password src'.
      generatePassword (passwordOptionsObject 12 (simpleCommandOptions simpleDefaults)
                          simplePasswordOptions) (rng w) = (Inr password, src') \<and>
      length password = 12 \<and>
      set password \<subseteq>
        set ''abcdefghjkmnpqrstuvwxyzABCDEFGHIJKMNPQRSTUVWXYZ23456789!@#$%^&*()_+-=[]{}|;:,.<>?'' \<and>
      simpleAction simpleDefaults w = copyToClipboard password (w\<lparr>rng := src'\<rparr>)) \<and>
   parseLength (co_length (strongCommandOptions strongDefaults)) = Inr 20 \<and>
   destructure (passwordOptionsObject 20 (strongCommandOptions strongDefaults)
                  strongPasswordOptions) =
     \<lparr> b_length = 20, b_includeLowercase = True, b_includeUppercase = True,
       b_includeNumbers = True, b_includeSymbols = True, b_excludeAmbiguous = False \<rparr> \<and>
   (\<exists>password src'.
      generatePassword (passwordOptionsObject 20 (strongCommandOptions strongDefaults)
                          strongPasswordOptions) (rng w) = (Inr password, src') \<and>
      length password = 20 \<and>
      set password \<subseteq>
        set ''abcdefghijklmnopqrstuvwxyzABCDEFGHIJKLMNOPQRSTUVWXYZ0123456789!@#$%^&*()_+-=[]{}|;:,.<>?'' \<and>
      strongAction strongDefaults w = copyToClipboard password (w\<lparr>rng := src'\<rparr>)) \<and>
   parseLength (co_length (pinCommandOptions pinDefaults)) = Inr 6 \<and>
   destructure (passwordOptionsObject 6 (pinCommandOptions pinDefaults) pinPasswordOptions) =
     \<lparr> b_length = 6, b_includeLowercase = False, b_includeUppercase = False,
       b_includeNumbers = True, b_includeSymbols = False, b_excludeAmbiguous = False \<rparr> \<and>
   (\<exists>password src'.
      generatePassword (passwordOptionsObject 6 (pinCommandOptions pinDefaults)
                          pinPasswordOptions) (rng w) = (Inr password, src') \<and>
      length password = 6 \<and>
      set password \<subseteq> set ''0123456789'' \<and>
      pinAction pinDefaults w = copyToClipboard password (w\<lparr>rng := src'\<rparr>))"
proof -
  have s: "parseLength (co_length (simpleCommandOptions simpleDefaults)) = Inr 12"
    by (simp add: simpleCommandOptions_def simpleDefaults_def parseLength_preset_defaults)
  have t: "parseLength (co_length (strongCommandOptions strongDefaults)) = Inr 20"
    by (simp add: strongCommandOptions_def strongDefaults_def parseLength_preset_defaults)
  have l: "parseLength (co_length (pinCommandOptions pinDefaults)) = Inr 6"
    by (simp add: pinCommandOptions_def pinDefaults_def parseLength_6)
  have "\<exists>password src'.
      generatePassword (passwordOptionsObject 12 (simpleCommandOptions simpleDefaults)
                          simplePasswordOptions) (rng w) = (Inr password, src') \<and>
      int (length password) = 12 \<and>
      set password \<subseteq>
        set ''abcdefghjkmnpqrstuvwxyzABCDEFGHIJKMNPQRSTUVWXYZ23456789!@#$%^&*()_+-=[]{}|;:,.<>?'' \<and>
      handlePasswordGeneration (simpleCommandOptions simpleDefaults) simplePasswordOptions w =
        copyToClipboard password (w\<lparr>rng := src'\<rparr>)"
    by (rule run_generates [OF s _ simple_charset])
       (simp_all add: simplePasswordOptions_def truthy_def simpleCommandOptions_def
          simpleDefaults_def)
  then have a: "\<exists>password src'.
      generatePassword (passwordOptionsObject 12 (simpleCommandOptions simpleDefaults)
                          simplePasswordOptions) (rng w) = (Inr password, src') \<and>
      length password = 12 \<and>
      set password \<subseteq>
        set ''abcdefghjkmnpqrstuvwxyzABCDEFGHIJKMNPQRSTUVWXYZ23456789!@#$%^&*()_+-=[]{}|;:,.<>?'' \<and>
      simpleAction simpleDefaults w = copyToClipboard password (w\<lparr>rng := src'\<rparr>)"
    unfolding simpleAction_def by (metis of_nat_eq_iff of_nat_numeral)
  have "\<exists>password src'.
      generatePassword (passwordOptionsObject 20 (strongCommandOptions strongDefaults)
                          strongPasswordOptions) (rng w) = (Inr password, src') \<and>
      int (length password) = 20 \<and>
      set password \<subseteq>
        set ''abcdefghijklmnopqrstuvwxyzABCDEFGHIJKLMNOPQRSTUVWXYZ0123456789!@#$%^&*()_+-=[]{}|;:,.<>?'' \<and>
      handlePasswordGeneration (strongCommandOptions strongDefaults) strongPasswordOptions w =
        copyToClipboard password (w\<lparr>rng := src'\<rparr>)"
    by (rule run_generates [OF t _ strong_charset])
       (simp_all add: strongPasswordOptions_def truthy_def strongCommandOptions_def
          strongDefaults_def)
  then have b: "\<exists>password src'.
      generatePassword (passwordOptionsObject 20 (strongCommandOptions strongDefaults)
                          strongPasswordOptions) (rng w) = (Inr password, src') \<and>
      length password = 20 \<and>
      set password \<subseteq>
        set ''abcdefghijklmnopqrstuvwxyzABCDEFGHIJKLMNOPQRSTUVWXYZ0123456789!@#$%^&*()_+-=[]{}|;:,.<>?'' \<and>
      strongAction strongDefaults w = copyToClipboard password (w\<lparr>rng := src'\<rparr>)"
    unfolding strongAction_def by (metis of_nat_eq_iff of_nat_numeral)
  have "\<exists>password src'.
      generatePassword (passwordOptionsObject 6 (pinCommandOptions pinDefaults)
                          pinPasswordOptions) (rng w) = (Inr password, src') \<and>
      int (length password) = 6 \<and>
      set password \<subseteq> set ''0123456789'' \<and>
      handlePasswordGeneration (pinCommandOptions pinDefaults) pinPasswordOptions w =
        copyToClipboard password (w\<lparr>rng := src'\<rparr>)"
    by (rule run_generates [OF l _ pin_charset])
       (simp_all add: pinPasswordOptions_def truthy_def pinCommandOptions_def pinDefaults_def)
  then have c: "\<exists>password src'.
      generatePassword (passwordOptionsObject 6 (pinCommandOptions pinDefaults)
                          pinPasswordOptions) (rng w) = (Inr password, src') \<and>
      length password = 6 \<and>
      set password \<subseteq> set ''0123456789'' \<and>
      pinAction pinDefaults w = copyToClipboard password (w\<lparr>rng := src'\<rparr>)"
    unfolding pinAction_def by (metis of_nat_eq_iff of_nat_numeral)
  from s t l a b c show ?thesis
    unfolding simple_bindings strong_bindings pin_bindings by blast
qed

end
